theory Spec2Isabelle
  imports Main
begin

section \<open>URL routing: Map and MapAdapter of werkzeug/routing/map.py\<close>

text \<open>
  The development embeds \<^verbatim>\<open>Map.add\<close>, \<^verbatim>\<open>Map.update\<close>, \<^verbatim>\<open>Map.bind\<close> and the
  methods of \<^verbatim>\<open>MapAdapter\<close> (\<^verbatim>\<open>match\<close>, \<^verbatim>\<open>get_host\<close>, \<^verbatim>\<open>get_default_redirect\<close>,
  \<^verbatim>\<open>make_redirect_url\<close>, \<^verbatim>\<open>make_alias_redirect_url\<close>, \<^verbatim>\<open>_partial_build\<close>, \<^verbatim>\<open>build\<close>).
  The classes \<^verbatim>\<open>Rule\<close> and \<^verbatim>\<open>StateMachineMatcher\<close> live in other modules; their methods
  are parameters of the model (record \<open>collab\<close>), as are the standard-library string
  functions the module imports (record \<open>stdlib\<close>). Every theorem holds for all of them.
\<close>

subsection \<open>Python strings\<close>

text \<open>
  \<^verbatim>\<open>str.lower\<close> and \<^verbatim>\<open>str.upper\<close> on the ASCII letters; a \<open>char\<close> is a byte, and the
  other bytes are left as they are.
\<close>

definition lower_char :: "char \<Rightarrow> char" where
  "lower_char c =
     (case map_of (zip ''ABCDEFGHIJKLMNOPQRSTUVWXYZ'' ''abcdefghijklmnopqrstuvwxyz'') c of
        None \<Rightarrow> c
      | Some l \<Rightarrow> l)"

definition upper_char :: "char \<Rightarrow> char" where
  "upper_char c =
     (case map_of (zip ''abcdefghijklmnopqrstuvwxyz'' ''ABCDEFGHIJKLMNOPQRSTUVWXYZ'') c of
        None \<Rightarrow> c
      | Some u \<Rightarrow> u)"

definition lower :: "string \<Rightarrow> string" where
  "lower s = map lower_char s"

definition upper :: "string \<Rightarrow> string" where
  "upper s = map upper_char s"

text \<open>\<^verbatim>\<open>s.lstrip("/")\<close>, \<^verbatim>\<open>s.rstrip("/")\<close>, \<^verbatim>\<open>s.strip("/")\<close>.\<close>

definition lstrip :: "string \<Rightarrow> string" where
  "lstrip s = dropWhile (\<lambda>c. c = CHR ''/'') s"

definition rstrip :: "string \<Rightarrow> string" where
  "rstrip s = rev (dropWhile (\<lambda>c. c = CHR ''/'') (rev s))"

definition strip :: "string \<Rightarrow> string" where
  "strip s = rstrip (lstrip s)"

text \<open>\<^verbatim>\<open>s.endswith("/")\<close>.\<close>

definition endswith_slash :: "string \<Rightarrow> bool" where
  "endswith_slash s = (s \<noteq> [] \<and> last s = CHR ''/'')"

text \<open>
  \<^verbatim>\<open>s.partition(":")\<close>: the text before the first colon, the colon, the text after it;
  \<^verbatim>\<open>(s, "", "")\<close> when there is no colon.
\<close>

definition partition_colon :: "string \<Rightarrow> string \<times> string \<times> string" where
  "partition_colon s =
     (let rest = dropWhile (\<lambda>c. c \<noteq> CHR '':'') s
      in if rest = [] then (s, [], [])
         else (takeWhile (\<lambda>c. c \<noteq> CHR '':'') s, '':'', tl rest))"

subsection \<open>Values, rules, outcomes, errors\<close>

text \<open>
  A Python value as far as the module looks at it. A \<^verbatim>\<open>dict\<close> keeps insertion order, so
  a mapping of values is an association list.
\<close>

datatype pyval = PyNone | PyStr string | PyInt int | PyList "pyval list"

type_synonym vals = "(string \<times> pyval) list"

text \<open>\<^verbatim>\<open>query_args: Mapping[str, Any] | str\<close>, and its truth value.\<close>

datatype query_args = QStr string | QMap vals

fun query_truthy :: "query_args \<Rightarrow> bool" where
  "query_truthy (QStr s) = (s \<noteq> [])"
| "query_truthy (QMap d) = (d \<noteq> [])"

text \<open>
  The \<^verbatim>\<open>values\<close> argument of \<^verbatim>\<open>build\<close>: \<^verbatim>\<open>None\<close>, a plain mapping, or a
  \<^verbatim>\<open>MultiDict\<close>, whose underlying \<^verbatim>\<open>dict\<close> maps each key to the list of its values.
\<close>

datatype build_values = NoValues | PlainDict vals | MultiDict "(string \<times> pyval list) list"

text \<open>
  The bound context of \<^verbatim>\<open>MapAdapter\<close>. The reference to the map is passed next to the
  adapter, since the map is mutable and shared.
\<close>

record adapter =
  server_name :: string
  script_name :: string
  subdomain :: "string option"
  url_scheme :: string
  path_info :: string
  default_method :: string
  query_args :: "query_args option"
  websocket :: bool

text \<open>
  \<^verbatim>\<open>Rule.redirect_to\<close>: a template string or a callable of the adapter and the matched
  values.
\<close>

datatype redirect_target = Template string | Callable "adapter \<Rightarrow> vals \<Rightarrow> string"

text \<open>
  The attributes of a bound \<^verbatim>\<open>Rule\<close>. \<open>ident\<close> is the identity of the object
  (\<^verbatim>\<open>r is rule\<close>); \<open>converters\<close> gives \<^verbatim>\<open>rule._converters[name].to_url\<close>. The module
  reads all of them but \<open>methods\<close> (\<open>None\<close> is any method), which only the methods of
  \<^verbatim>\<open>Rule\<close> and the matcher read.
\<close>

record rule =
  ident :: nat
  endpoint :: string
  defaults :: "vals option"
  methods :: "string set option"
  build_only :: bool
  rule_websocket :: bool
  redirect_to :: "redirect_target option"
  converters :: "string \<Rightarrow> (pyval \<Rightarrow> string) option"

text \<open>
  What \<^verbatim>\<open>StateMachineMatcher.match\<close> does: it returns \<^verbatim>\<open>(rule, values)\<close> or raises
  \<^verbatim>\<open>RequestPath(path_info)\<close>, \<^verbatim>\<open>RequestAliasRedirect(matched_values, endpoint)\<close> or
  \<^verbatim>\<open>NoMatch(have_match_for, websocket_mismatch)\<close>.
\<close>

datatype match_outcome =
    Matched rule vals
  | RequestPath string
  | RequestAliasRedirect string vals
  | NoMatch "string set" bool

text \<open>The exceptions that leave the module.\<close>

datatype error =
    RuntimeError
  | BadHost
  | RequestRedirect string
  | MethodNotAllowed "string set"
  | WebsocketMismatch
  | NotFound
  | BuildError string vals "string option"
  | KeyError
  | TypeError
  | AssertionError

text \<open>
  The methods of \<^verbatim>\<open>Rule\<close> and of the matcher, which this module calls and does not
  define. The matcher answers from the rules that were added to it, in the order of the
  calls of \<^verbatim>\<open>add\<close>.
\<close>

record 'k collab =
  matcher_match :: "rule list \<Rightarrow> string \<Rightarrow> string \<Rightarrow> string \<Rightarrow> bool \<Rightarrow> match_outcome"
  suitable_for :: "rule \<Rightarrow> vals \<Rightarrow> string option \<Rightarrow> bool"
  rule_build :: "rule \<Rightarrow> vals \<Rightarrow> bool \<Rightarrow> (string \<times> string) option"
  provides_defaults_for :: "rule \<Rightarrow> rule \<Rightarrow> bool"
  build_compare_key :: "rule \<Rightarrow> 'k"

text \<open>
  The functions of the standard library and of \<^verbatim>\<open>werkzeug.urls\<close> that the module
  imports: the \<^verbatim>\<open>idna\<close> codec (\<open>None\<close> is \<^verbatim>\<open>UnicodeError\<close>), \<^verbatim>\<open>quote\<close> with the safe set
  of the module, \<^verbatim>\<open>urljoin\<close>, \<^verbatim>\<open>urlunsplit\<close> of scheme, host, path and query, and
  \<^verbatim>\<open>_urlencode\<close>.
\<close>

record stdlib =
  idna_encode :: "string \<Rightarrow> string option"
  quote :: "string \<Rightarrow> string"
  urljoin :: "string \<Rightarrow> string \<Rightarrow> string"
  urlunsplit :: "string \<Rightarrow> string \<Rightarrow> string \<Rightarrow> string option \<Rightarrow> string"
  urlencode :: "vals \<Rightarrow> string"

subsection \<open>Map\<close>

text \<open>
  The state of a \<^verbatim>\<open>Map\<close>: the rules handed to the matcher, \<^verbatim>\<open>_rules_by_endpoint\<close>, the
  \<^verbatim>\<open>_remap\<close> flag and the policies the module reads.
\<close>

record url_map =
  matcher_rules :: "rule list"
  rules_by_endpoint :: "string \<Rightarrow> rule list option"
  remap :: bool
  default_subdomain :: string
  redirect_defaults :: bool
  host_matching :: bool

text \<open>
  \<^verbatim>\<open>Map.add\<close> for the rules a factory yields: a rule that is not \<^verbatim>\<open>build_only\<close> goes to
  the matcher, every rule is appended to the list of its endpoint, and the map is marked
  for remapping.
\<close>

definition add_rule :: "url_map \<Rightarrow> rule \<Rightarrow> url_map" where
  "add_rule m r =
     m\<lparr>matcher_rules := (if build_only r then matcher_rules m else matcher_rules m @ [r]),
       rules_by_endpoint := (rules_by_endpoint m)
         (endpoint r \<mapsto> (case rules_by_endpoint m (endpoint r) of None \<Rightarrow> [] | Some rs \<Rightarrow> rs) @ [r])\<rparr>"

definition add :: "url_map \<Rightarrow> rule list \<Rightarrow> url_map" where
  "add m rs = (foldl add_rule m rs)\<lparr>remap := True\<rparr>"

text \<open>
  \<^verbatim>\<open>Map.update\<close>: nothing when \<^verbatim>\<open>_remap\<close> is false; otherwise every endpoint's list is
  sorted by \<^verbatim>\<open>build_compare_key\<close> (\<^verbatim>\<open>list.sort\<close> is stable, as \<open>sort_key\<close> is) and the
  flag is cleared.
\<close>

definition update :: "('k::linorder) collab \<Rightarrow> url_map \<Rightarrow> url_map" where
  "update cb m =
     (if \<not> remap m then m
      else m\<lparr>rules_by_endpoint :=
                (\<lambda>e. map_option (sort_key (build_compare_key cb)) (rules_by_endpoint m e)),
             remap := False\<rparr>)"

subsection \<open>MapAdapter\<close>

text \<open>\<^verbatim>\<open>MapAdapter.__init__\<close>.\<close>

definition MapAdapter ::
  "string \<Rightarrow> string \<Rightarrow> string option \<Rightarrow> string \<Rightarrow> string \<Rightarrow> string \<Rightarrow> query_args option \<Rightarrow> adapter" where
  "MapAdapter sn script sub scheme pinfo dm qa =
     \<lparr>server_name = sn,
      script_name = (if \<not> endswith_slash script then script @ ''/'' else script),
      subdomain = sub,
      url_scheme = scheme,
      path_info = pinfo,
      default_method = dm,
      query_args = qa,
      websocket = (scheme = ''ws'' \<or> scheme = ''wss'')\<rparr>"

text \<open>\<^verbatim>\<open>Map.bind\<close>.\<close>

definition bind ::
  "stdlib \<Rightarrow> url_map \<Rightarrow> string \<Rightarrow> string option \<Rightarrow> string option \<Rightarrow> string \<Rightarrow> string \<Rightarrow>
   string option \<Rightarrow> query_args option \<Rightarrow> error + adapter" where
  "bind sl m sn script sub scheme dm pinfo qa =
     (let sn1 = lower sn in
      if host_matching m \<and> sub \<noteq> None then Inl RuntimeError
      else
        let sub1 = (if \<not> host_matching m \<and> sub = None then Some (default_subdomain m) else sub);
            script1 = (case script of None \<Rightarrow> ''/'' | Some s \<Rightarrow> s);
            pinfo1 = (case pinfo of None \<Rightarrow> ''/'' | Some p \<Rightarrow> p);
            (host, port_sep, port) = partition_colon sn1
        in case idna_encode sl host of
             None \<Rightarrow> Inl BadHost
           | Some enc \<Rightarrow> Inr (MapAdapter (enc @ port_sep @ port) script1 sub1 scheme pinfo1 dm qa))"

text \<open>\<^verbatim>\<open>MapAdapter.get_host\<close>.\<close>

definition get_host :: "url_map \<Rightarrow> adapter \<Rightarrow> string option \<Rightarrow> string" where
  "get_host m a domain_part =
     (if host_matching m then (case domain_part of None \<Rightarrow> server_name a | Some d \<Rightarrow> d)
      else
        (case (case domain_part of None \<Rightarrow> subdomain a | Some d \<Rightarrow> Some d) of
           None \<Rightarrow> server_name a
         | Some s \<Rightarrow> if s \<noteq> [] then s @ ''.'' @ server_name a else server_name a))"

text \<open>\<^verbatim>\<open>MapAdapter.encode_query_args\<close>.\<close>

fun encode_query_args :: "stdlib \<Rightarrow> query_args \<Rightarrow> string" where
  "encode_query_args sl (QMap d) = urlencode sl d"
| "encode_query_args sl (QStr s) = s"

text \<open>\<^verbatim>\<open>MapAdapter.make_redirect_url\<close>.\<close>

definition make_redirect_url ::
  "stdlib \<Rightarrow> url_map \<Rightarrow> adapter \<Rightarrow> string \<Rightarrow> query_args option \<Rightarrow> string option \<Rightarrow> string" where
  "make_redirect_url sl m a pinfo qargs domain_part =
     (let qargs1 = (case qargs of None \<Rightarrow> query_args a | Some q \<Rightarrow> Some q);
          query_str = (case qargs1 of
                         None \<Rightarrow> None
                       | Some q \<Rightarrow> if query_truthy q then Some (encode_query_args sl q) else None);
          scheme = (if url_scheme a \<noteq> [] then url_scheme a else ''http'');
          host = get_host m a domain_part;
          path = strip (script_name a) @ ''/'' @ lstrip pinfo
      in urlunsplit sl scheme host path query_str)"

text \<open>\<^verbatim>\<open>d[k] = v\<close> and \<^verbatim>\<open>d.update(e)\<close> on an insertion-ordered \<^verbatim>\<open>dict\<close>.\<close>

fun dict_set :: "vals \<Rightarrow> string \<Rightarrow> pyval \<Rightarrow> vals" where
  "dict_set [] k v = [(k, v)]"
| "dict_set ((k', v') # d) k v = (if k' = k then (k, v) # d else (k', v') # dict_set d k v)"

definition dict_update :: "vals \<Rightarrow> vals \<Rightarrow> vals" where
  "dict_update d e = foldl (\<lambda>acc kv. dict_set acc (fst kv) (snd kv)) d e"

text \<open>
  \<^verbatim>\<open>MapAdapter.get_default_redirect\<close>: \<open>default_redirect_via\<close> is the body of the loop
  for the rule that redirects, and the loop over the endpoint's rules stops at the
  matched rule itself. Unpacking the \<^verbatim>\<open>None\<close> that \<^verbatim>\<open>Rule.build\<close> may return, and updating
  with defaults that are \<^verbatim>\<open>None\<close>, raise \<^verbatim>\<open>TypeError\<close>; an endpoint that is not a key of
  \<^verbatim>\<open>_rules_by_endpoint\<close> raises \<^verbatim>\<open>KeyError\<close>.
\<close>

definition default_redirect_via ::
  "'k collab \<Rightarrow> stdlib \<Rightarrow> url_map \<Rightarrow> adapter \<Rightarrow> rule \<Rightarrow> vals \<Rightarrow> query_args \<Rightarrow>
   error + string option" where
  "default_redirect_via cb sl m a r values qargs =
     (case defaults r of
        None \<Rightarrow> Inl TypeError
      | Some d \<Rightarrow>
          (case rule_build cb r (dict_update values d) True of
             None \<Rightarrow> Inl TypeError
           | Some bv \<Rightarrow>
               Inr (Some (make_redirect_url sl m a (snd bv) (Some qargs) (Some (fst bv))))))"

fun default_redirect_loop ::
  "'k collab \<Rightarrow> stdlib \<Rightarrow> url_map \<Rightarrow> adapter \<Rightarrow> rule \<Rightarrow> string \<Rightarrow> vals \<Rightarrow> query_args \<Rightarrow>
   rule list \<Rightarrow> error + string option" where
  "default_redirect_loop cb sl m a rl method values qargs [] = Inr None"
| "default_redirect_loop cb sl m a rl method values qargs (r # rs) =
     (if ident r = ident rl then Inr None
      else if provides_defaults_for cb r rl \<and> suitable_for cb r values (Some method) then
        default_redirect_via cb sl m a r values qargs
      else default_redirect_loop cb sl m a rl method values qargs rs)"

definition get_default_redirect ::
  "'k collab \<Rightarrow> stdlib \<Rightarrow> url_map \<Rightarrow> adapter \<Rightarrow> rule \<Rightarrow> string \<Rightarrow> vals \<Rightarrow> query_args \<Rightarrow>
   error + string option" where
  "get_default_redirect cb sl m a rl method values qargs =
     (if \<not> redirect_defaults m then Inl AssertionError
      else case rules_by_endpoint m (endpoint rl) of
             None \<Rightarrow> Inl KeyError
           | Some rs \<Rightarrow> default_redirect_loop cb sl m a rl method values qargs rs)"

text \<open>
  \<^verbatim>\<open>MapAdapter._partial_build\<close>. The loop keeps \<^verbatim>\<open>first_match\<close>; the method itself calls
  itself once, with the default method, when no method is given.
\<close>

fun partial_build_loop ::
  "'k collab \<Rightarrow> url_map \<Rightarrow> adapter \<Rightarrow> vals \<Rightarrow> string option \<Rightarrow> bool \<Rightarrow>
   (string \<times> string \<times> bool) option \<Rightarrow> rule list \<Rightarrow> (string \<times> string \<times> bool) option" where
  "partial_build_loop cb m a values method append_unknown first_match [] = first_match"
| "partial_build_loop cb m a values method append_unknown first_match (r # rs) =
     (if suitable_for cb r values method then
        (case rule_build cb r values append_unknown of
           None \<Rightarrow> partial_build_loop cb m a values method append_unknown first_match rs
         | Some build_rv \<Rightarrow>
             (let rv = (fst build_rv, snd build_rv, rule_websocket r) in
              if host_matching m then
                (if fst rv = server_name a then Some rv
                 else if first_match = None then
                   partial_build_loop cb m a values method append_unknown (Some rv) rs
                 else partial_build_loop cb m a values method append_unknown first_match rs)
              else Some rv))
      else partial_build_loop cb m a values method append_unknown first_match rs)"

function partial_build ::
  "'k collab \<Rightarrow> url_map \<Rightarrow> adapter \<Rightarrow> string \<Rightarrow> vals \<Rightarrow> string option \<Rightarrow> bool \<Rightarrow>
   (string \<times> string \<times> bool) option" where
  "partial_build cb m a ep values None append_unknown =
     (case partial_build cb m a ep values (Some (default_method a)) append_unknown of
        Some rv \<Rightarrow> Some rv
      | None \<Rightarrow>
          partial_build_loop cb m a values None append_unknown None
            (case rules_by_endpoint m ep of None \<Rightarrow> [] | Some rs \<Rightarrow> rs))"
| "partial_build cb m a ep values (Some mth) append_unknown =
     partial_build_loop cb m a values (Some mth) append_unknown None
       (case rules_by_endpoint m ep of None \<Rightarrow> [] | Some rs \<Rightarrow> rs)"
  by pat_completeness auto
termination
  by (relation "measure (\<lambda>(cb, m, a, ep, values, method, au). case method of None \<Rightarrow> 1 | Some _ \<Rightarrow> 0)")
    auto


text \<open>
  The normalisation of \<^verbatim>\<open>values\<close> at the head of \<^verbatim>\<open>MapAdapter.build\<close>: a plain mapping
  loses the entries that are \<^verbatim>\<open>None\<close>; a \<^verbatim>\<open>MultiDict\<close> loses its empty lists, a list of one
  element becomes that element and a longer list stays a list.
\<close>

fun values_truthy :: "build_values \<Rightarrow> bool" where
  "values_truthy NoValues = False"
| "values_truthy (PlainDict d) = (d \<noteq> [])"
| "values_truthy (MultiDict d) = (d \<noteq> [])"

definition normalize_values :: "build_values \<Rightarrow> vals" where
  "normalize_values values =
     (if values_truthy values then
        (case values of
           MultiDict d \<Rightarrow>
             map (\<lambda>kv. (fst kv, (if length (snd kv) = 1 then hd (snd kv) else PyList (snd kv))))
               (filter (\<lambda>kv. length (snd kv) \<noteq> 0) d)
         | PlainDict d \<Rightarrow> filter (\<lambda>kv. snd kv \<noteq> PyNone) d
         | NoValues \<Rightarrow> [])
      else [])"

text \<open>
  The second half of \<^verbatim>\<open>MapAdapter.build\<close>: from the selected \<^verbatim>\<open>(domain_part, path,
  websocket)\<close> to the URL. \<open>butlast\<close> is \<^verbatim>\<open>script_name[:-1]\<close>.
\<close>

definition build_url ::
  "url_map \<Rightarrow> adapter \<Rightarrow> string \<times> string \<times> bool \<Rightarrow> bool \<Rightarrow> string option \<Rightarrow> string" where
  "build_url m a rv force_external scheme_arg =
     (let domain_part = fst rv; path = fst (snd rv); ws = snd (snd rv);
          host = get_host m a (Some domain_part);
          scheme0 = (case scheme_arg of None \<Rightarrow> url_scheme a | Some s \<Rightarrow> s);
          secure = (scheme0 = ''https'' \<or> scheme0 = ''wss'');
          force_external1 = (if ws then True else force_external);
          scheme1 = (if ws then (if secure then ''wss'' else ''ws'')
                     else if scheme0 \<noteq> [] then (if secure then ''https'' else ''http'')
                     else scheme0)
      in if \<not> force_external1 \<and>
            ((host_matching m \<and> host = server_name a) \<or>
             (\<not> host_matching m \<and> Some domain_part = subdomain a))
         then rstrip (script_name a) @ ''/'' @ lstrip path
         else (if scheme1 \<noteq> [] then scheme1 @ '':'' else []) @ ''//'' @ host @
              butlast (script_name a) @ ''/'' @ lstrip path)"

text \<open>
  \<^verbatim>\<open>MapAdapter.build\<close>. It updates the map first, so it returns the map with its result.
  The \<^verbatim>\<open>BuildError\<close> carries the endpoint, the normalised values and the method.
\<close>

definition build ::
  "('k::linorder) collab \<Rightarrow> url_map \<Rightarrow> adapter \<Rightarrow> string \<Rightarrow> build_values \<Rightarrow> string option \<Rightarrow>
   bool \<Rightarrow> bool \<Rightarrow> string option \<Rightarrow> url_map \<times> (error + string)" where
  "build cb m a ep values method force_external append_unknown scheme_arg =
     (let m1 = update cb m;
          values1 = normalize_values values
      in case partial_build cb m1 a ep values1 method append_unknown of
           None \<Rightarrow> (m1, Inl (BuildError ep values1 method))
         | Some rv \<Rightarrow> (m1, Inr (build_url m1 a rv force_external scheme_arg)))"

text \<open>\<^verbatim>\<open>MapAdapter.make_alias_redirect_url\<close>, with its assertion.\<close>

definition make_alias_redirect_url ::
  "('k::linorder) collab \<Rightarrow> stdlib \<Rightarrow> url_map \<Rightarrow> adapter \<Rightarrow> string \<Rightarrow> string \<Rightarrow> vals \<Rightarrow> string \<Rightarrow>
   query_args \<Rightarrow> url_map \<times> (error + string)" where
  "make_alias_redirect_url cb sl m a path ep values method qargs =
     (let res = build cb m a ep (PlainDict values) (Some method) True False None
      in case snd res of
           Inl e \<Rightarrow> (fst res, Inl e)
         | Inr url \<Rightarrow>
             (let url1 = (if query_truthy qargs then url @ ''?'' @ encode_query_args sl qargs
                          else url)
              in if url1 = path then (fst res, Inl AssertionError) else (fst res, Inr url1)))"

text \<open>
  \<^verbatim>\<open>_simple_rule_re.sub(_handle_match, template)\<close>: every placeholder, a non-empty name
  between angle brackets with no closing bracket in it, is replaced by what the handler
  returns for the name, from left to right.
\<close>

function sub_template :: "(string \<Rightarrow> error + string) \<Rightarrow> string \<Rightarrow> error + string" where
  "sub_template h [] = Inr []"
| "sub_template h (c # cs) =
     (if c = CHR 0x3C \<and> takeWhile (\<lambda>x. x \<noteq> CHR 0x3E) cs \<noteq> [] \<and>
         dropWhile (\<lambda>x. x \<noteq> CHR 0x3E) cs \<noteq> []
      then
        (case h (takeWhile (\<lambda>x. x \<noteq> CHR 0x3E) cs) of
           Inl e \<Rightarrow> Inl e
         | Inr s \<Rightarrow>
             (case sub_template h (tl (dropWhile (\<lambda>x. x \<noteq> CHR 0x3E) cs)) of
                Inl e \<Rightarrow> Inl e
              | Inr t \<Rightarrow> Inr (s @ t)))
      else
        (case sub_template h cs of Inl e \<Rightarrow> Inl e | Inr t \<Rightarrow> Inr (c # t)))"
  by pat_completeness auto
termination
proof (relation "measure (\<lambda>(h, s). length s)")
  show "wf (measure (\<lambda>(h, s). length s))" by simp
next
  fix h :: "string \<Rightarrow> error + string" and c :: char and cs :: string
  have "length (tl (dropWhile (\<lambda>x. x \<noteq> CHR 0x3E) cs)) \<le> length cs"
    using length_dropWhile_le [of "\<lambda>x. x \<noteq> CHR 0x3E" cs] by simp
  then show "((h, tl (dropWhile (\<lambda>x. x \<noteq> CHR 0x3E) cs)), (h, c # cs)) \<in> measure (\<lambda>(h, s). length s)"
    by simp
next
  fix h :: "string \<Rightarrow> error + string" and c :: char and cs :: string
  show "((h, cs), (h, c # cs)) \<in> measure (\<lambda>(h, s). length s)" by simp
qed

text \<open>
  The handler of the substitution in \<^verbatim>\<open>match\<close>: \<^verbatim>\<open>rv[name]\<close> and
  \<^verbatim>\<open>rule._converters[name]\<close> raise \<^verbatim>\<open>KeyError\<close> on a missing name.
\<close>

definition handle_match :: "rule \<Rightarrow> vals \<Rightarrow> string \<Rightarrow> error + string" where
  "handle_match rl rv name =
     (case map_of rv name of
        None \<Rightarrow> Inl KeyError
      | Some v \<Rightarrow> (case converters rl name of None \<Rightarrow> Inl KeyError | Some to_url \<Rightarrow> Inr (to_url v)))"

text \<open>
  The domain part that \<^verbatim>\<open>match\<close> hands to the matcher, and the query arguments and the
  method it works with.
\<close>

definition match_domain :: "url_map \<Rightarrow> adapter \<Rightarrow> string" where
  "match_domain m a =
     (case subdomain a of
        None \<Rightarrow> server_name a
      | Some s \<Rightarrow> if \<not> host_matching m then s else server_name a)"

definition match_query_args :: "adapter \<Rightarrow> query_args option \<Rightarrow> query_args" where
  "match_query_args a qargs_arg =
     (case qargs_arg of
        Some q \<Rightarrow> q
      | None \<Rightarrow> (case query_args a of
                   None \<Rightarrow> QMap []
                 | Some q \<Rightarrow> if query_truthy q then q else QMap []))"

definition match_method :: "adapter \<Rightarrow> string option \<Rightarrow> string" where
  "match_method a method_arg =
     upper (case method_arg of
              None \<Rightarrow> default_method a
            | Some s \<Rightarrow> if s \<noteq> [] then s else default_method a)"

text \<open>The path that \<^verbatim>\<open>match\<close> hands to the matcher.\<close>

definition path_part :: "string \<Rightarrow> string" where
  "path_part pinfo = (if pinfo \<noteq> [] then ''/'' @ lstrip pinfo else [])"

text \<open>What \<^verbatim>\<open>match\<close> returns: the rule or its endpoint, and the values.\<close>

datatype match_target = TRule rule | TEndpoint string

text \<open>
  \<^verbatim>\<open>MapAdapter.match\<close>. Its arguments are \<^verbatim>\<open>path_info\<close>, \<^verbatim>\<open>method\<close>, \<^verbatim>\<open>return_rule\<close>,
  \<^verbatim>\<open>query_args\<close> and \<^verbatim>\<open>websocket\<close>; it updates the map first.
\<close>

definition match ::
  "('k::linorder) collab \<Rightarrow> stdlib \<Rightarrow> url_map \<Rightarrow> adapter \<Rightarrow> string option \<Rightarrow> string option \<Rightarrow> bool \<Rightarrow>
   query_args option \<Rightarrow> bool option \<Rightarrow> url_map \<times> (error + match_target \<times> vals)" where
  "match cb sl m a pinfo_arg method_arg return_rule qargs_arg ws_arg =
     (let m1 = update cb m;
          pinfo = (case pinfo_arg of None \<Rightarrow> path_info a | Some p \<Rightarrow> p);
          qargs = match_query_args a qargs_arg;
          method = match_method a method_arg;
          ws = (case ws_arg of None \<Rightarrow> websocket a | Some w \<Rightarrow> w);
          domain_part = match_domain m1 a;
          ppart = path_part pinfo
      in case matcher_match cb (matcher_rules m1) domain_part ppart method ws of
           RequestPath p \<Rightarrow>
             (m1, Inl (RequestRedirect (make_redirect_url sl m1 a (quote sl p) (Some qargs) None)))
         | RequestAliasRedirect ep matched_values \<Rightarrow>
             (let res = make_alias_redirect_url cb sl m1 a (domain_part @ ''|'' @ ppart) ep
                          matched_values method qargs
              in case snd res of
                   Inl e \<Rightarrow> (fst res, Inl e)
                 | Inr url \<Rightarrow> (fst res, Inl (RequestRedirect url)))
         | NoMatch have_match_for websocket_mismatch \<Rightarrow>
             (if have_match_for \<noteq> {} then (m1, Inl (MethodNotAllowed have_match_for))
              else if websocket_mismatch then (m1, Inl WebsocketMismatch)
              else (m1, Inl NotFound))
         | Matched rl rv \<Rightarrow>
             (case (if redirect_defaults m1
                    then get_default_redirect cb sl m1 a rl method rv qargs
                    else Inr None) of
                Inl e \<Rightarrow> (m1, Inl e)
              | Inr (Some redirect_url) \<Rightarrow> (m1, Inl (RequestRedirect redirect_url))
              | Inr None \<Rightarrow>
                  (case redirect_to rl of
                     Some target \<Rightarrow>
                       (case (case target of
                                Template t \<Rightarrow> sub_template (handle_match rl rv) t
                              | Callable f \<Rightarrow> Inr (f a rv)) of
                          Inl e \<Rightarrow> (m1, Inl e)
                        | Inr redirect_url \<Rightarrow>
                            (let netloc = (case subdomain a of
                                             None \<Rightarrow> server_name a
                                           | Some s \<Rightarrow> if s \<noteq> [] then s @ ''.'' @ server_name a
                                                       else server_name a)
                             in (m1, Inl (RequestRedirect
                                   (urljoin sl
                                      ((if url_scheme a \<noteq> [] then url_scheme a else ''http'') @
                                       ''://'' @ netloc @ script_name a)
                                      redirect_url)))))
                   | None \<Rightarrow>
                       (m1, Inr (if return_rule then TRule rl else TEndpoint (endpoint rl), rv)))))"


subsection \<open>Rule selection and default redirection, as the documentation words them\<close>

text \<open>
  The rules of an endpoint that can build, in the order of the list: a rule is eligible
  when it is suitable for the values and the method and its substitution succeeds; the
  entry is what \<^verbatim>\<open>_partial_build\<close> would return for it.
\<close>

definition eligible_builds ::
  "'k collab \<Rightarrow> vals \<Rightarrow> string option \<Rightarrow> bool \<Rightarrow> rule list \<Rightarrow> (string \<times> string \<times> bool) list" where
  "eligible_builds cb values method append_unknown rs =
     List.map_filter
       (\<lambda>r. if suitable_for cb r values method
            then map_option (\<lambda>bv. (fst bv, snd bv, rule_websocket r))
                   (rule_build cb r values append_unknown)
            else None)
       rs"

text \<open>
  The selection among them: the first eligible rule; under host matching the first one
  that builds to the adapter's own server name, and the first eligible rule when there
  is none.
\<close>

definition select_rule ::
  "'k collab \<Rightarrow> url_map \<Rightarrow> adapter \<Rightarrow> vals \<Rightarrow> string option \<Rightarrow> bool \<Rightarrow> rule list \<Rightarrow>
   (string \<times> string \<times> bool) option" where
  "select_rule cb m a values method append_unknown rs =
     (let el = eligible_builds cb values method append_unknown rs
      in if host_matching m then
           (case find (\<lambda>rv. fst rv = server_name a) el of
              Some rv \<Rightarrow> Some rv
            | None \<Rightarrow> (case el of [] \<Rightarrow> None | rv # _ \<Rightarrow> Some rv))
         else (case el of [] \<Rightarrow> None | rv # _ \<Rightarrow> Some rv))"

text \<open>
  The rules that stand before the matched rule in a list, and the first of them that
  provides defaults for the matched rule and is suitable for the values and the method.
\<close>

definition rules_before :: "rule \<Rightarrow> rule list \<Rightarrow> rule list" where
  "rules_before rl rs = takeWhile (\<lambda>r. ident r \<noteq> ident rl) rs"

definition first_default_rule ::
  "'k collab \<Rightarrow> rule \<Rightarrow> string \<Rightarrow> vals \<Rightarrow> rule list \<Rightarrow> rule option" where
  "first_default_rule cb rl method values rs =
     find (\<lambda>r. provides_defaults_for cb r rl \<and> suitable_for cb r values (Some method))
       (rules_before rl rs)"

subsection \<open>Instances for the examples\<close>

text \<open>
  Stand-ins for the standard library on ASCII text: the \<^verbatim>\<open>idna\<close> codec accepts a name
  whose labels are shorter than 64 characters and, but for the last, not empty;
  \<^verbatim>\<open>urlunsplit\<close> puts scheme, host, path and query together; \<^verbatim>\<open>_urlencode\<close> joins the
  string-valued entries.
\<close>

fun split_dot :: "string \<Rightarrow> string list" where
  "split_dot [] = [[]]"
| "split_dot (c # cs) =
     (if c = CHR ''.'' then [] # split_dot cs
      else (case split_dot cs of [] \<Rightarrow> [[c]] | l # ls \<Rightarrow> (c # l) # ls))"

definition idna_ascii :: "string \<Rightarrow> string option" where
  "idna_ascii s =
     (let labels = split_dot s
      in if list_all (\<lambda>l. 0 < length l \<and> length l < 64) (butlast labels) \<and>
            length (last labels) < 64
         then Some s else None)"

definition urlunsplit_ascii :: "string \<Rightarrow> string \<Rightarrow> string \<Rightarrow> string option \<Rightarrow> string" where
  "urlunsplit_ascii scheme netloc url query =
     (let url1 = (if netloc \<noteq> [] then
                    ''//'' @ netloc @ (if url \<noteq> [] \<and> hd url \<noteq> CHR ''/'' then ''/'' @ url else url)
                  else url);
          url2 = (if scheme \<noteq> [] then scheme @ '':'' @ url1 else url1)
      in case query of
           None \<Rightarrow> url2
         | Some q \<Rightarrow> if q \<noteq> [] then url2 @ ''?'' @ q else url2)"

fun urlencode_ascii :: "vals \<Rightarrow> string" where
  "urlencode_ascii [] = []"
| "urlencode_ascii ((k, PyStr v) # d) =
     k @ ''='' @ v @ (if urlencode_ascii d = [] then [] else ''&'' @ urlencode_ascii d)"
| "urlencode_ascii (kv # d) = urlencode_ascii d"

definition example_stdlib :: stdlib where
  "example_stdlib =
     \<lparr>idna_encode = idna_ascii, quote = (\<lambda>s. s), urljoin = (\<lambda>base url. base @ url),
      urlunsplit = urlunsplit_ascii, urlencode = urlencode_ascii\<rparr>"

text \<open>\<^verbatim>\<open>Map.__init__\<close> with its rules, each added by \<^verbatim>\<open>add\<close>.\<close>

definition Map_init :: "rule list \<Rightarrow> string \<Rightarrow> bool \<Rightarrow> bool \<Rightarrow> url_map" where
  "Map_init rules dsub rdefaults hmatching =
     foldl (\<lambda>m r. add m [r])
       \<lparr>matcher_rules = [], rules_by_endpoint = (\<lambda>e. None), remap = True,
        default_subdomain = dsub, redirect_defaults = rdefaults, host_matching = hmatching\<rparr>
       rules"

text \<open>A rule for any method, with no defaults, neither websocket nor redirecting.\<close>

definition example_rule :: "nat \<Rightarrow> string \<Rightarrow> rule" where
  "example_rule i ep =
     \<lparr>ident = i, endpoint = ep, defaults = None, methods = None, build_only = False,
      rule_websocket = False, redirect_to = None, converters = (\<lambda>n. None)\<rparr>"

text \<open>
  Modelled from the spec: the methods of \<^verbatim>\<open>Rule\<close> and \<^verbatim>\<open>StateMachineMatcher.match\<close>,
  which are not part of the module, on the rules of one example. The matcher's answer is
  listed by path; \<^verbatim>\<open>Rule.build\<close> is listed by rule and values; a rule is suitable when
  it accepts the method and the values do not contradict its defaults; a rule provides
  defaults for another rule of its endpoint when it has defaults; the build key puts the
  rule with more defaults first. Only the evaluations at the examples use it.
\<close>

definition example_collab ::
  "(string \<Rightarrow> match_outcome) \<Rightarrow> (nat \<Rightarrow> vals \<Rightarrow> (string \<times> string) option) \<Rightarrow>
   int collab" where
  "example_collab answers builds =
     \<lparr>matcher_match = (\<lambda>rs d p mth ws. answers p),
      suitable_for = (\<lambda>r vs mth.
         (case mth of
            None \<Rightarrow> True
          | Some x \<Rightarrow> (case methods r of None \<Rightarrow> True | Some ms \<Rightarrow> x \<in> ms)) \<and>
         list_all (\<lambda>kv. case map_of vs (fst kv) of None \<Rightarrow> True | Some v \<Rightarrow> v = snd kv)
           (case defaults r of None \<Rightarrow> [] | Some d \<Rightarrow> d)),
      rule_build = (\<lambda>r vs au. builds (ident r) vs),
      provides_defaults_for = (\<lambda>r rl.
         \<not> build_only r \<and> defaults r \<noteq> None \<and> defaults r \<noteq> Some [] \<and>
         endpoint r = endpoint rl \<and> ident r \<noteq> ident rl),
      build_compare_key = (\<lambda>r. - int (length (case defaults r of None \<Rightarrow> [] | Some d \<Rightarrow> d)))\<rparr>"

text \<open>
  The adapter of the examples: \<^verbatim>\<open>bind("example.com")\<close> on a map whose default subdomain
  is empty.
\<close>

definition example_adapter :: adapter where
  "example_adapter = MapAdapter ''example.com'' ''/'' (Some []) ''http'' ''/'' ''GET'' None"

text \<open>
  Two rules on one path, \<^verbatim>\<open>Rule("/x", endpoint="post", methods=["POST"])\<close> and
  \<^verbatim>\<open>Rule("/x", endpoint="ws", websocket=True)\<close>, and a websocket rule alone on \<^verbatim>\<open>/ws\<close>.
  A \<^verbatim>\<open>GET\<close> request over HTTP for \<^verbatim>\<open>/x\<close> finds the first rule with another method and
  the second with another transport, so the matcher raises \<^verbatim>\<open>NoMatch\<close> with both.
\<close>

definition rule_post :: rule where
  "rule_post = (example_rule 0 ''post'')\<lparr>methods := Some {''POST''}\<rparr>"

definition rule_ws :: rule where
  "rule_ws = (example_rule 1 ''ws'')\<lparr>rule_websocket := True\<rparr>"

definition rule_ws_only :: rule where
  "rule_ws_only = (example_rule 2 ''ws_only'')\<lparr>rule_websocket := True\<rparr>"

definition mismatch_map :: url_map where
  "mismatch_map = Map_init [rule_post, rule_ws, rule_ws_only] [] True False"

definition mismatch_collab :: "int collab" where
  "mismatch_collab =
     example_collab
       (\<lambda>p. if p = ''/x'' then NoMatch {''POST''} True
            else if p = ''/ws'' then NoMatch {} True
            else NoMatch {} False)
       (\<lambda>i vs. None)"

text \<open>A map without rules, with the default subdomain \<^verbatim>\<open>www\<close> and no host matching.\<close>

definition www_map :: url_map where
  "www_map = Map_init [] ''www'' True False"

text \<open>
  One rule, \<^verbatim>\<open>Rule("/x", endpoint="e")\<close>: the matcher finds it on the path \<^verbatim>\<open>/x\<close>, with no
  values, and the rule builds to \<^verbatim>\<open>/x\<close> on the empty subdomain.
\<close>

definition rule_x :: rule where
  "rule_x = example_rule 0 ''e''"

definition x_map :: url_map where
  "x_map = Map_init [rule_x] [] True False"

definition x_collab :: "int collab" where
  "x_collab =
     example_collab (\<lambda>p. if p = ''/x'' then Matched rule_x [] else NoMatch {} False)
       (\<lambda>i vs. Some ([], ''/x''))"

text \<open>A matcher that answers as the one above on \<^verbatim>\<open>/x\<close> and differently elsewhere.\<close>

definition other_matcher ::
  "rule list \<Rightarrow> string \<Rightarrow> string \<Rightarrow> string \<Rightarrow> bool \<Rightarrow> match_outcome" where
  "other_matcher rs d p mth ws =
     (if p = ''/x'' then Matched rule_x [] else NoMatch {''GET''} True)"

text \<open>
  Host matching: two rules of the endpoint \<^verbatim>\<open>e\<close>, the first bound to \<^verbatim>\<open>other.com\<close> and the
  second to \<^verbatim>\<open>example.com\<close>, and a rule of the endpoint \<^verbatim>\<open>p\<close> for \<^verbatim>\<open>POST\<close> only, bound to
  \<^verbatim>\<open>other.com\<close>. The adapter is bound to \<^verbatim>\<open>example.com\<close>.
\<close>

definition rule_a :: rule where
  "rule_a = example_rule 0 ''e''"

definition rule_b :: rule where
  "rule_b = example_rule 1 ''e''"

definition rule_post_only :: rule where
  "rule_post_only = (example_rule 2 ''p'')\<lparr>methods := Some {''POST''}\<rparr>"

definition host_map :: url_map where
  "host_map = Map_init [rule_a, rule_b, rule_post_only] [] True True"

definition host_collab :: "int collab" where
  "host_collab =
     example_collab (\<lambda>p. NoMatch {} False)
       (\<lambda>i vs. if i = 0 then Some (''other.com'', ''/a'')
            else if i = 1 then Some (''example.com'', ''/b'')
            else Some (''other.com'', ''/p''))"

definition host_adapter :: adapter where
  "host_adapter = MapAdapter ''example.com'' ''/'' None ''http'' ''/'' ''GET'' None"

text \<open>
  A websocket rule \<^verbatim>\<open>/chat\<close> and a rule \<^verbatim>\<open>/home\<close> on the empty subdomain, and a rule
  \<^verbatim>\<open>/page\<close> on the subdomain \<^verbatim>\<open>docs\<close>; the adapter is bound to \<^verbatim>\<open>example.com\<close> with the
  script name \<^verbatim>\<open>/app\<close>, the empty subdomain and the scheme \<^verbatim>\<open>https\<close>.
\<close>

definition rule_chat :: rule where
  "rule_chat = (example_rule 0 ''chat'')\<lparr>rule_websocket := True\<rparr>"

definition rule_page :: rule where
  "rule_page = example_rule 1 ''page''"

definition rule_home :: rule where
  "rule_home = example_rule 2 ''home''"

definition chat_map :: url_map where
  "chat_map = Map_init [rule_chat, rule_page, rule_home] [] True False"

definition chat_collab :: "int collab" where
  "chat_collab =
     example_collab (\<lambda>p. NoMatch {} False)
       (\<lambda>i vs. if i = 0 then Some ([], ''/chat'')
            else if i = 1 then Some (''docs'', ''/page'')
            else Some ([], ''/home''))"

definition secure_adapter :: adapter where
  "secure_adapter = MapAdapter ''example.com'' ''/app'' (Some []) ''https'' ''/'' ''GET'' None"

text \<open>
  Two rules of the endpoint \<^verbatim>\<open>all\<close>, registered in this order: the general rule
  \<^verbatim>\<open>Rule("/all/page/<int:page>")\<close> and then the rule \<^verbatim>\<open>Rule("/all/", defaults={"page": 1})\<close>.
  The matcher's answers are listed for the paths \<^verbatim>\<open>/all/page/1\<close>, \<^verbatim>\<open>/all/page/2\<close> and
  \<^verbatim>\<open>/all/\<close>.
\<close>

definition rule_all_page :: rule where
  "rule_all_page = example_rule 0 ''all''"

definition rule_all :: rule where
  "rule_all = (example_rule 1 ''all'')\<lparr>defaults := Some [(''page'', PyInt 1)]\<rparr>"

definition pages_map :: url_map where
  "pages_map = Map_init [rule_all_page, rule_all] [] True False"

definition pages_collab :: "int collab" where
  "pages_collab =
     example_collab
       (\<lambda>p. if p = ''/all/page/1'' then Matched rule_all_page [(''page'', PyInt 1)]
            else if p = ''/all/page/2'' then Matched rule_all_page [(''page'', PyInt 2)]
            else if p = ''/all/'' then Matched rule_all [(''page'', PyInt 1)]
            else NoMatch {} False)
       (\<lambda>i vs. if i = 1 then Some ([], ''/all/'')
               else if map_of vs ''page'' = Some (PyInt 1) then Some ([], ''/all/page/1'')
               else if map_of vs ''page'' = Some (PyInt 2) then Some ([], ''/all/page/2'')
               else None)"

text \<open>
  An alias: on the path \<^verbatim>\<open>/old\<close> the matcher finds an alias rule of the endpoint \<^verbatim>\<open>e\<close> and
  asks for the redirect to the canonical URL; the rule \<^verbatim>\<open>/x\<close> of that endpoint builds to
  \<^verbatim>\<open>/x\<close> on the empty subdomain.
\<close>

definition alias_collab :: "int collab" where
  "alias_collab =
     example_collab
       (\<lambda>p. if p = ''/old'' then RequestAliasRedirect ''e'' [] else NoMatch {} False)
       (\<lambda>i vs. Some ([], ''/x''))"

section \<open>Properties\<close>

subsection \<open>What a failed match reports\<close>

text \<open>
  C1 (as the code has it): when the matcher raises \<^verbatim>\<open>NoMatch\<close>, \<^verbatim>\<open>match\<close> fails with
  \<^verbatim>\<open>MethodNotAllowed\<close>, carrying the allowed methods, whenever that set is not empty,
  whatever the websocket flag says; with \<^verbatim>\<open>WebsocketMismatch\<close> when the set is empty and
  the flag is set; with \<^verbatim>\<open>NotFound\<close> otherwise. The transport mismatch has priority over
  not-found only.
\<close>

theorem match_no_match_priority:
  assumes "matcher_match cb (matcher_rules (update cb m)) (match_domain (update cb m) a)
             (path_part (case pinfo of None \<Rightarrow> path_info a | Some p \<Rightarrow> p))
             (match_method a meth) (case ws of None \<Rightarrow> websocket a | Some w \<Rightarrow> w) =
           NoMatch have_match_for websocket_mismatch"
  shows "snd (match cb sl m a pinfo meth rr qa ws) =
         Inl (if have_match_for \<noteq> {} then MethodNotAllowed have_match_for
              else if websocket_mismatch then WebsocketMismatch else NotFound)"
  using assms by (simp add: match_def Let_def)

text \<open>
  The theorem at \<^verbatim>\<open>match("/ws")\<close>, where only the transport differs: the failure is
  \<^verbatim>\<open>WebsocketMismatch\<close>.
\<close>

theorem match_no_match_priority_witness:
  "snd (match mismatch_collab example_stdlib mismatch_map example_adapter (Some ''/ws'') None
          False None None) = Inl WebsocketMismatch"
  using match_no_match_priority [of mismatch_collab mismatch_map example_adapter "Some ''/ws''"
      None None "{}" True example_stdlib False None]
  by (simp add: mismatch_collab_def example_collab_def example_adapter_def MapAdapter_def
      path_part_def lstrip_def)

text \<open>
  C1 as it is stated fails at \<^verbatim>\<open>match("/x", "GET")\<close>: the matcher reports the allowed
  method \<^verbatim>\<open>POST\<close> and the websocket mismatch together, and \<^verbatim>\<open>match\<close> fails with
  \<^verbatim>\<open>MethodNotAllowed\<close>, not with \<^verbatim>\<open>WebsocketMismatch\<close>.
\<close>

theorem match_websocket_priority_counterexample:
  "matcher_match mismatch_collab (matcher_rules (update mismatch_collab mismatch_map))
     (match_domain (update mismatch_collab mismatch_map) example_adapter) (path_part ''/x'')
     (match_method example_adapter (Some ''GET'')) False = NoMatch {''POST''} True \<and>
   snd (match mismatch_collab example_stdlib mismatch_map example_adapter (Some ''/x'')
          (Some ''GET'') False None None) = Inl (MethodNotAllowed {''POST''}) \<and>
   snd (match mismatch_collab example_stdlib mismatch_map example_adapter (Some ''/x'')
          (Some ''GET'') False None None) \<noteq> Inl WebsocketMismatch"
  by (simp add: match_def mismatch_collab_def example_collab_def example_adapter_def
      MapAdapter_def path_part_def lstrip_def)

subsection \<open>Binding a map\<close>

lemma partition_colon_join:
  "fst (partition_colon s) @ fst (snd (partition_colon s)) @ snd (snd (partition_colon s)) = s"
proof (cases "dropWhile (\<lambda>c. c \<noteq> CHR '':'') s = []")
  case True
  then show ?thesis by (simp add: partition_colon_def)
next
  case False
  then have "hd (dropWhile (\<lambda>c. c \<noteq> CHR '':'') s) = CHR '':''"
    using hd_dropWhile [of "\<lambda>c. c \<noteq> CHR '':''" s] by simp
  with False have "dropWhile (\<lambda>c. c \<noteq> CHR '':'') s =
      CHR '':'' # tl (dropWhile (\<lambda>c. c \<noteq> CHR '':'') s)"
    by (cases "dropWhile (\<lambda>c. c \<noteq> CHR '':'') s") simp_all
  then have "takeWhile (\<lambda>c. c \<noteq> CHR '':'') s @
      CHR '':'' # tl (dropWhile (\<lambda>c. c \<noteq> CHR '':'') s) = s"
    using takeWhile_dropWhile_id [of "\<lambda>c. c \<noteq> CHR '':''" s] by simp
  with False show ?thesis by (simp add: partition_colon_def)
qed

lemma partition_colon_host: "CHR '':'' \<notin> set (fst (partition_colon s))"
proof (cases "dropWhile (\<lambda>c. c \<noteq> CHR '':'') s = []")
  case True
  then have "\<forall>x\<in>set s. x \<noteq> CHR '':''" by simp
  with True show ?thesis by (auto simp add: partition_colon_def)
next
  case False
  then show ?thesis
    by (auto simp add: partition_colon_def dest: set_takeWhileD)
qed

text \<open>
  C6: \<^verbatim>\<open>bind\<close> lowercases the server name and splits it at the first colon into a host
  without colon, the separator and the port, which together are the lowercased name
  again. With host matching and a subdomain that is not \<^verbatim>\<open>None\<close> it fails with
  \<^verbatim>\<open>RuntimeError\<close>, before any encoding. Otherwise it fails with \<^verbatim>\<open>BadHost\<close> exactly when
  the \<^verbatim>\<open>idna\<close> encoding of the host fails; when the encoding succeeds it returns an
  adapter whose server name is the encoded host with the separator and the port, and
  whose subdomain is the map's default subdomain when host matching is off and the
  subdomain given is \<^verbatim>\<open>None\<close>.
\<close>

theorem bind_normalises:
  "(host_matching m \<and> sub \<noteq> None \<longrightarrow>
      bind sl m sn script sub scheme dm pinfo qa = Inl RuntimeError) \<and>
   (\<not> (host_matching m \<and> sub \<noteq> None) \<longrightarrow>
      (bind sl m sn script sub scheme dm pinfo qa = Inl BadHost \<longleftrightarrow>
         idna_encode sl (fst (partition_colon (lower sn))) = None) \<and>
      (\<forall>enc. idna_encode sl (fst (partition_colon (lower sn))) = Some enc \<longrightarrow>
         (\<exists>a. bind sl m sn script sub scheme dm pinfo qa = Inr a \<and>
              server_name a = enc @ fst (snd (partition_colon (lower sn))) @
                                snd (snd (partition_colon (lower sn))) \<and>
              subdomain a = (if \<not> host_matching m \<and> sub = None then Some (default_subdomain m)
                             else sub)))) \<and>
   fst (partition_colon (lower sn)) @ fst (snd (partition_colon (lower sn))) @
     snd (snd (partition_colon (lower sn))) = lower sn \<and>
   CHR '':'' \<notin> set (fst (partition_colon (lower sn)))"
  by (auto simp add: bind_def Let_def MapAdapter_def partition_colon_join partition_colon_host
      split: prod.splits option.splits)

text \<open>
  The theorem at \<^verbatim>\<open>bind("Example.COM:8080")\<close> on a map with the default subdomain
  \<^verbatim>\<open>www\<close>: the host \<^verbatim>\<open>example.com\<close> encodes, so the adapter has the server name
  \<^verbatim>\<open>example.com:8080\<close> and the subdomain \<^verbatim>\<open>www\<close>.
\<close>

theorem bind_normalises_witness:
  "\<not> (host_matching www_map \<and> (None :: string option) \<noteq> None) \<and>
   idna_encode example_stdlib (fst (partition_colon (lower ''Example.COM:8080''))) =
     Some ''example.com'' \<and>
   bind example_stdlib www_map ''Example.COM:8080'' None None ''http'' ''GET'' None None \<noteq>
     Inl BadHost \<and>
   (\<exists>a. bind example_stdlib www_map ''Example.COM:8080'' None None ''http'' ''GET'' None None =
          Inr a \<and> server_name a = ''example.com:8080'' \<and> subdomain a = Some ''www'')"
  using bind_normalises [of www_map None example_stdlib "''Example.COM:8080''" None "''http''"
      "''GET''" None None]
  by (simp add: www_map_def Map_init_def example_stdlib_def idna_ascii_def lower_def
      lower_char_def partition_colon_def)

text \<open>
  The other two outcomes, evaluated: a name with an empty label does not encode, and a
  subdomain under host matching is refused whatever the name is.
\<close>

lemma bind_bad_host_example:
  "bind example_stdlib www_map ''bad..host:80'' None None ''http'' ''GET'' None None =
     Inl BadHost"
  by (simp add: bind_def www_map_def Map_init_def example_stdlib_def idna_ascii_def lower_def
      lower_char_def partition_colon_def)

lemma bind_runtime_error_example:
  "bind example_stdlib (Map_init [] [] True True) ''bad..host:80'' None (Some ''www'') ''http''
     ''GET'' None None = Inl RuntimeError"
  by (simp add: bind_def Map_init_def)

subsection \<open>The path that reaches the matcher\<close>

lemma path_part_slash: "p \<noteq> [] \<Longrightarrow> path_part (CHR ''/'' # p) = path_part p"
  by (simp add: path_part_def lstrip_def)

lemma update_matcher_irrelevant: "update (cb\<lparr>matcher_match := mm\<rparr>) m = update cb m"
  by (simp add: update_def)

lemma redirect_defaults_update: "redirect_defaults (update cb m) = redirect_defaults m"
  by (simp add: update_def)

lemma default_redirect_loop_matcher_irrelevant:
  "default_redirect_loop (cb\<lparr>matcher_match := mm\<rparr>) sl m a rl method values qargs rs =
   default_redirect_loop cb sl m a rl method values qargs rs"
  by (induction rs) (simp_all add: default_redirect_via_def cong: option.case_cong)

lemma get_default_redirect_matcher_irrelevant:
  "get_default_redirect (cb\<lparr>matcher_match := mm\<rparr>) sl m a rl method values qargs =
   get_default_redirect cb sl m a rl method values qargs"
  by (simp add: get_default_redirect_def default_redirect_loop_matcher_irrelevant
      cong: option.case_cong)

lemma partial_build_loop_matcher_irrelevant:
  "partial_build_loop (cb\<lparr>matcher_match := mm\<rparr>) m a values method au fm rs =
   partial_build_loop cb m a values method au fm rs"
  by (induction rs arbitrary: fm) (simp_all add: Let_def cong: option.case_cong if_cong)

lemma partial_build_matcher_irrelevant:
  "partial_build (cb\<lparr>matcher_match := mm\<rparr>) m a ep values method au =
   partial_build cb m a ep values method au"
  by (cases "method") (simp_all add: partial_build_loop_matcher_irrelevant cong: option.case_cong)

lemma build_matcher_irrelevant:
  "build (cb\<lparr>matcher_match := mm\<rparr>) m a ep values method fe au sch =
   build cb m a ep values method fe au sch"
  by (simp add: build_def update_matcher_irrelevant partial_build_matcher_irrelevant)

lemma make_alias_redirect_url_matcher_irrelevant:
  "make_alias_redirect_url (cb\<lparr>matcher_match := mm\<rparr>) sl m a path ep values method qargs =
   make_alias_redirect_url cb sl m a path ep values method qargs"
  by (simp add: make_alias_redirect_url_def build_matcher_irrelevant)

lemma match_bound_path:
  "match cb sl m a None meth rr qa ws = match cb sl m a (Some (path_info a)) meth rr qa ws"
  by (simp add: match_def)

lemma match_queries_once:
  assumes "mm (matcher_rules (update cb m)) (match_domain (update cb m) a)
             (path_part (case pinfo of None \<Rightarrow> path_info a | Some q \<Rightarrow> q))
             (match_method a meth) (case ws of None \<Rightarrow> websocket a | Some w \<Rightarrow> w) =
           matcher_match cb (matcher_rules (update cb m)) (match_domain (update cb m) a)
             (path_part (case pinfo of None \<Rightarrow> path_info a | Some q \<Rightarrow> q))
             (match_method a meth) (case ws of None \<Rightarrow> websocket a | Some w \<Rightarrow> w)"
  shows "match (cb\<lparr>matcher_match := mm\<rparr>) sl m a pinfo meth rr qa ws =
         match cb sl m a pinfo meth rr qa ws"
  using assms
  by (simp add: match_def update_matcher_irrelevant get_default_redirect_matcher_irrelevant
      make_alias_redirect_url_matcher_irrelevant Let_def cong: match_outcome.case_cong if_cong)

lemma match_reports_path:
  "snd (match (cb\<lparr>matcher_match := (\<lambda>rs d q mth w. NoMatch {q} False)\<rparr>) sl m a pinfo meth rr
          qa ws) =
   Inl (MethodNotAllowed {path_part (case pinfo of None \<Rightarrow> path_info a | Some q \<Rightarrow> q)})"
  by (simp add: match_def Let_def)

lemma match_found:
  assumes "matcher_match cb (matcher_rules (update cb m)) (match_domain (update cb m) a)
             (path_part (case pinfo of None \<Rightarrow> path_info a | Some q \<Rightarrow> q))
             (match_method a meth) (case ws of None \<Rightarrow> websocket a | Some w \<Rightarrow> w) =
           Matched rl rv"
    and "redirect_defaults m \<longrightarrow>
         get_default_redirect cb sl (update cb m) a rl (match_method a meth) rv
           (match_query_args a qa) = Inr None"
    and "redirect_to rl = None"
  shows "snd (match cb sl m a pinfo meth rr qa ws) =
           Inr (if rr then TRule rl else TEndpoint (endpoint rl), rv)"
  using assms
  by (cases "redirect_defaults m") (simp_all add: match_def Let_def redirect_defaults_update)

lemma match_slash:
  "p \<noteq> [] \<Longrightarrow>
   match cb sl m a (Some (CHR ''/'' # p)) meth rr qa ws = match cb sl m a (Some p) meth rr qa ws"
  by (simp add: match_def path_part_slash)

text \<open>
  C10: the path that \<^verbatim>\<open>match\<close> hands to the matcher is \<^verbatim>\<open>path_info\<close>, the argument or,
  without one, the path the adapter is bound to, without its leading slashes and with one
  slash in front, and the empty string for an empty \<^verbatim>\<open>path_info\<close>. The matcher is asked
  that path: a matcher that reports the path it is asked as the set of allowed methods
  makes \<^verbatim>\<open>match\<close> fail with exactly that path in \<^verbatim>\<open>MethodNotAllowed\<close>. It is asked nothing
  else: another matcher that gives the same answer to that one query gives the same result
  of \<^verbatim>\<open>match\<close>, and a rule found there, with no redirection, is what \<^verbatim>\<open>match\<close> returns.
  A call without \<^verbatim>\<open>path_info\<close> is the call with the bound path. Hence for a non-empty
  \<^verbatim>\<open>p\<close> the calls \<^verbatim>\<open>match(p)\<close>, \<^verbatim>\<open>match("/" + p)\<close> and \<^verbatim>\<open>match("//" + p)\<close> query the same
  path, and return the same.
\<close>

theorem match_path_normalised:
  "path_part p = (if p = [] then [] else CHR ''/'' # dropWhile (\<lambda>c. c = CHR ''/'') p) \<and>
   snd (match (cb\<lparr>matcher_match := (\<lambda>rs d q mth w. NoMatch {q} False)\<rparr>) sl m a pinfo meth rr
          qa ws) =
     Inl (MethodNotAllowed {path_part (case pinfo of None \<Rightarrow> path_info a | Some q \<Rightarrow> q)}) \<and>
   (mm (matcher_rules (update cb m)) (match_domain (update cb m) a)
       (path_part (case pinfo of None \<Rightarrow> path_info a | Some q \<Rightarrow> q))
       (match_method a meth) (case ws of None \<Rightarrow> websocket a | Some w \<Rightarrow> w) =
    matcher_match cb (matcher_rules (update cb m)) (match_domain (update cb m) a)
       (path_part (case pinfo of None \<Rightarrow> path_info a | Some q \<Rightarrow> q))
       (match_method a meth) (case ws of None \<Rightarrow> websocket a | Some w \<Rightarrow> w) \<longrightarrow>
    match (cb\<lparr>matcher_match := mm\<rparr>) sl m a pinfo meth rr qa ws =
    match cb sl m a pinfo meth rr qa ws) \<and>
   (matcher_match cb (matcher_rules (update cb m)) (match_domain (update cb m) a)
       (path_part (case pinfo of None \<Rightarrow> path_info a | Some q \<Rightarrow> q))
       (match_method a meth) (case ws of None \<Rightarrow> websocket a | Some w \<Rightarrow> w) = Matched rl rv \<and>
    (redirect_defaults m \<longrightarrow>
       get_default_redirect cb sl (update cb m) a rl (match_method a meth) rv
         (match_query_args a qa) = Inr None) \<and>
    redirect_to rl = None \<longrightarrow>
    snd (match cb sl m a pinfo meth rr qa ws) =
      Inr (if rr then TRule rl else TEndpoint (endpoint rl), rv)) \<and>
   match cb sl m a None meth rr qa ws = match cb sl m a (Some (path_info a)) meth rr qa ws \<and>
   (p \<noteq> [] \<longrightarrow>
      path_part (''/'' @ p) = path_part p \<and> path_part (''//'' @ p) = path_part p \<and>
      match cb sl m a (Some (''/'' @ p)) meth rr qa ws = match cb sl m a (Some p) meth rr qa ws \<and>
      match cb sl m a (Some (''//'' @ p)) meth rr qa ws = match cb sl m a (Some p) meth rr qa ws)"
proof -
  have one: "path_part p = (if p = [] then [] else CHR ''/'' # dropWhile (\<lambda>c. c = CHR ''/'') p)"
    by (simp add: path_part_def lstrip_def)
  note probe = match_reports_path [of cb sl m a pinfo meth rr qa ws]
  have two: "mm (matcher_rules (update cb m)) (match_domain (update cb m) a)
       (path_part (case pinfo of None \<Rightarrow> path_info a | Some q \<Rightarrow> q))
       (match_method a meth) (case ws of None \<Rightarrow> websocket a | Some w \<Rightarrow> w) =
    matcher_match cb (matcher_rules (update cb m)) (match_domain (update cb m) a)
       (path_part (case pinfo of None \<Rightarrow> path_info a | Some q \<Rightarrow> q))
       (match_method a meth) (case ws of None \<Rightarrow> websocket a | Some w \<Rightarrow> w) \<longrightarrow>
    match (cb\<lparr>matcher_match := mm\<rparr>) sl m a pinfo meth rr qa ws =
    match cb sl m a pinfo meth rr qa ws"
    using match_queries_once [of mm cb m a pinfo meth ws sl rr qa] by blast
  have found: "matcher_match cb (matcher_rules (update cb m)) (match_domain (update cb m) a)
       (path_part (case pinfo of None \<Rightarrow> path_info a | Some q \<Rightarrow> q))
       (match_method a meth) (case ws of None \<Rightarrow> websocket a | Some w \<Rightarrow> w) = Matched rl rv \<and>
    (redirect_defaults m \<longrightarrow>
       get_default_redirect cb sl (update cb m) a rl (match_method a meth) rv
         (match_query_args a qa) = Inr None) \<and>
    redirect_to rl = None \<longrightarrow>
    snd (match cb sl m a pinfo meth rr qa ws) =
      Inr (if rr then TRule rl else TEndpoint (endpoint rl), rv)"
    using match_found [of cb m a pinfo meth ws rl rv sl qa rr] by blast
  note bound = match_bound_path [of cb sl m a meth rr qa ws]
  have three: "match cb sl m a (Some (''/'' @ p)) meth rr qa ws = match cb sl m a (Some p) meth rr qa ws"
    if "p \<noteq> []"
    using that match_slash [of p cb sl m a meth rr qa ws] by simp
  have four: "match cb sl m a (Some (''//'' @ p)) meth rr qa ws = match cb sl m a (Some p) meth rr qa ws"
    if "p \<noteq> []"
    using that match_slash [of "CHR ''/'' # p" cb sl m a meth rr qa ws]
      match_slash [of p cb sl m a meth rr qa ws] by simp
  have five: "path_part (''/'' @ p) = path_part p \<and> path_part (''//'' @ p) = path_part p"
    if "p \<noteq> []"
    using that by (simp add: path_part_def lstrip_def)
  from three four five have spellings: "p \<noteq> [] \<longrightarrow>
      path_part (''/'' @ p) = path_part p \<and> path_part (''//'' @ p) = path_part p \<and>
      match cb sl m a (Some (''/'' @ p)) meth rr qa ws = match cb sl m a (Some p) meth rr qa ws \<and>
      match cb sl m a (Some (''//'' @ p)) meth rr qa ws = match cb sl m a (Some p) meth rr qa ws"
    by blast
  show ?thesis
    by (intro conjI) (fact one probe two found bound spellings)+
qed

text \<open>
  The theorem on the map with the rule \<^verbatim>\<open>/x\<close>: the spellings \<^verbatim>\<open>x\<close>, \<^verbatim>\<open>/x\<close> and \<^verbatim>\<open>//x\<close>
  reach the matcher as \<^verbatim>\<open>/x\<close>, the reporting matcher shows \<^verbatim>\<open>/x\<close> for \<^verbatim>\<open>match("//x")\<close> and
  the bound path \<^verbatim>\<open>/\<close> for a call without \<^verbatim>\<open>path_info\<close>, a matcher that differs on the
  other paths only gives the same result, and \<^verbatim>\<open>match("x")\<close> returns the endpoint.
\<close>

theorem match_path_normalised_witness:
  "''x'' \<noteq> [] \<and>
   path_part ''x'' = ''/x'' \<and> path_part ''/x'' = ''/x'' \<and> path_part ''//x'' = ''/x'' \<and>
   snd (match (x_collab\<lparr>matcher_match := (\<lambda>rs d q mth w. NoMatch {q} False)\<rparr>) example_stdlib
          x_map example_adapter (Some ''//x'') None False None None) =
     Inl (MethodNotAllowed {''/x''}) \<and>
   path_info example_adapter = ''/'' \<and>
   snd (match (x_collab\<lparr>matcher_match := (\<lambda>rs d q mth w. NoMatch {q} False)\<rparr>) example_stdlib
          x_map example_adapter None None False None None) =
     Inl (MethodNotAllowed {''/''}) \<and>
   match x_collab example_stdlib x_map example_adapter None None False None None =
   match x_collab example_stdlib x_map example_adapter (Some ''/'') None False None None \<and>
   other_matcher (matcher_rules (update x_collab x_map))
     (match_domain (update x_collab x_map) example_adapter) (path_part ''x'')
     (match_method example_adapter None) (websocket example_adapter) =
   matcher_match x_collab (matcher_rules (update x_collab x_map))
     (match_domain (update x_collab x_map) example_adapter) (path_part ''x'')
     (match_method example_adapter None) (websocket example_adapter) \<and>
   other_matcher (matcher_rules (update x_collab x_map))
     (match_domain (update x_collab x_map) example_adapter) ''/y''
     (match_method example_adapter None) (websocket example_adapter) \<noteq>
   matcher_match x_collab (matcher_rules (update x_collab x_map))
     (match_domain (update x_collab x_map) example_adapter) ''/y''
     (match_method example_adapter None) (websocket example_adapter) \<and>
   match (x_collab\<lparr>matcher_match := other_matcher\<rparr>) example_stdlib x_map example_adapter
     (Some ''x'') None False None None =
   match x_collab example_stdlib x_map example_adapter (Some ''x'') None False None None \<and>
   matcher_match x_collab (matcher_rules (update x_collab x_map))
     (match_domain (update x_collab x_map) example_adapter) (path_part ''x'')
     (match_method example_adapter None) (websocket example_adapter) = Matched rule_x [] \<and>
   redirect_defaults x_map \<and>
   get_default_redirect x_collab example_stdlib (update x_collab x_map) example_adapter rule_x
     (match_method example_adapter None) [] (match_query_args example_adapter None) = Inr None \<and>
   redirect_to rule_x = None \<and>
   snd (match x_collab example_stdlib x_map example_adapter (Some ''x'') None False None None) =
     Inr (TEndpoint ''e'', []) \<and>
   match x_collab example_stdlib x_map example_adapter (Some ''//x'') None False None None =
   match x_collab example_stdlib x_map example_adapter (Some ''x'') None False None None"
proof -
  note ev = update_def x_map_def Map_init_def add_def add_rule_def x_collab_def
    example_collab_def example_adapter_def MapAdapter_def rule_x_def example_rule_def
    path_part_def lstrip_def match_domain_def match_method_def upper_def upper_char_def
    match_query_args_def get_default_redirect_def endswith_slash_def other_matcher_def
  have ne: "''x'' \<noteq> []" by simp
  have p1: "path_part ''x'' = ''/x''" and p2: "path_part ''/x'' = ''/x''"
    and p3: "path_part ''//x'' = ''/x''"
    by (simp_all add: path_part_def lstrip_def)
  have bound: "path_info example_adapter = ''/''"
    by (simp add: example_adapter_def MapAdapter_def)
  have p4: "path_part ''/'' = ''/''"
    by (simp add: path_part_def lstrip_def)
  have agree: "other_matcher (matcher_rules (update x_collab x_map))
     (match_domain (update x_collab x_map) example_adapter) (path_part ''x'')
     (match_method example_adapter None) (websocket example_adapter) =
   matcher_match x_collab (matcher_rules (update x_collab x_map))
     (match_domain (update x_collab x_map) example_adapter) (path_part ''x'')
     (match_method example_adapter None) (websocket example_adapter)"
    by (simp add: ev)
  have differ: "other_matcher (matcher_rules (update x_collab x_map))
     (match_domain (update x_collab x_map) example_adapter) ''/y''
     (match_method example_adapter None) (websocket example_adapter) \<noteq>
   matcher_match x_collab (matcher_rules (update x_collab x_map))
     (match_domain (update x_collab x_map) example_adapter) ''/y''
     (match_method example_adapter None) (websocket example_adapter)"
    by (simp add: ev)
  have matched: "matcher_match x_collab (matcher_rules (update x_collab x_map))
     (match_domain (update x_collab x_map) example_adapter) (path_part ''x'')
     (match_method example_adapter None) (websocket example_adapter) = Matched rule_x []"
    by (simp add: ev)
  have rd: "redirect_defaults x_map"
    by (simp add: ev)
  have no_default: "get_default_redirect x_collab example_stdlib (update x_collab x_map)
      example_adapter rule_x (match_method example_adapter None) []
      (match_query_args example_adapter None) = Inr None"
    by (simp add: ev)
  have no_target: "redirect_to rule_x = None"
    by (simp add: ev)
  note at_x = match_path_normalised [where p = "''x''" and pinfo = "Some ''x''"
      and mm = other_matcher and cb = x_collab and sl = example_stdlib and m = x_map
      and a = example_adapter and meth = None and rr = False and qa = None and ws = None
      and rl = rule_x and rv = "[]", unfolded option.case]
  note at_slashes = match_path_normalised [where p = "''x''" and pinfo = "Some ''//x''"
      and mm = other_matcher and cb = x_collab and sl = example_stdlib and m = x_map
      and a = example_adapter and meth = None and rr = False and qa = None and ws = None
      and rl = rule_x and rv = "[]", unfolded option.case]
  note at_bound = match_path_normalised [where p = "''x''" and pinfo = None
      and mm = other_matcher and cb = x_collab and sl = example_stdlib and m = x_map
      and a = example_adapter and meth = None and rr = False and qa = None and ws = None
      and rl = rule_x and rv = "[]", unfolded option.case]
  from at_slashes have "snd (match (x_collab\<lparr>matcher_match := (\<lambda>rs d q mth w. NoMatch {q} False)\<rparr>)
      example_stdlib x_map example_adapter (Some ''//x'') None False None None) =
      Inl (MethodNotAllowed {path_part ''//x''})"
    by blast
  then have probe1: "snd (match (x_collab\<lparr>matcher_match := (\<lambda>rs d q mth w. NoMatch {q} False)\<rparr>)
      example_stdlib x_map example_adapter (Some ''//x'') None False None None) =
      Inl (MethodNotAllowed {''/x''})"
    by (simp only: p3)
  from at_bound have "snd (match (x_collab\<lparr>matcher_match := (\<lambda>rs d q mth w. NoMatch {q} False)\<rparr>)
      example_stdlib x_map example_adapter None None False None None) =
      Inl (MethodNotAllowed {path_part (path_info example_adapter)})"
    by blast
  then have probe2: "snd (match (x_collab\<lparr>matcher_match := (\<lambda>rs d q mth w. NoMatch {q} False)\<rparr>)
      example_stdlib x_map example_adapter None None False None None) =
      Inl (MethodNotAllowed {''/''})"
    by (simp only: bound p4)
  from at_bound have "match x_collab example_stdlib x_map example_adapter None None False None None =
      match x_collab example_stdlib x_map example_adapter (Some (path_info example_adapter)) None
        False None None"
    by blast
  then have bound_same: "match x_collab example_stdlib x_map example_adapter None None False None
      None = match x_collab example_stdlib x_map example_adapter (Some ''/'') None False None None"
    by (simp only: bound)
  from at_x agree have same_matcher:
    "match (x_collab\<lparr>matcher_match := other_matcher\<rparr>) example_stdlib x_map example_adapter
       (Some ''x'') None False None None =
     match x_collab example_stdlib x_map example_adapter (Some ''x'') None False None None"
    by blast
  from at_x matched no_default no_target
  have "snd (match x_collab example_stdlib x_map example_adapter (Some ''x'') None False None
      None) = Inr (if False then TRule rule_x else TEndpoint (endpoint rule_x), [])"
    by blast
  then have result: "snd (match x_collab example_stdlib x_map example_adapter (Some ''x'') None
      False None None) = Inr (TEndpoint ''e'', [])"
    by (simp add: rule_x_def example_rule_def)
  from at_x ne have "match x_collab example_stdlib x_map example_adapter (Some (''//'' @ ''x''))
       None False None None =
     match x_collab example_stdlib x_map example_adapter (Some ''x'') None False None None"
    by blast
  then have same_path:
    "match x_collab example_stdlib x_map example_adapter (Some ''//x'') None False None None =
     match x_collab example_stdlib x_map example_adapter (Some ''x'') None False None None"
    by simp
  show ?thesis
    by (intro conjI) (fact ne p1 p2 p3 probe1 bound probe2 bound_same agree differ same_matcher
        matched rd no_default no_target result same_path)+
qed

subsection \<open>The values that build works on\<close>

lemma normalize_plain: "normalize_values (PlainDict d) = filter (\<lambda>kv. snd kv \<noteq> PyNone) d"
  by (cases d) (simp_all add: normalize_values_def)

lemma collapse_eq:
  "(if length vs = 1 then hd vs else PyList vs) = (case vs of [v] \<Rightarrow> v | _ \<Rightarrow> PyList vs)"
  by (cases vs rule: list.exhaust; simp split: list.splits)

lemma normalize_multi:
  "normalize_values (MultiDict md) =
     map (\<lambda>kv. (fst kv, (case snd kv of [v] \<Rightarrow> v | _ \<Rightarrow> PyList (snd kv))))
       (filter (\<lambda>kv. snd kv \<noteq> []) md)"
proof -
  have f: "(\<lambda>kv :: string \<times> pyval list.
              (fst kv, (if length (snd kv) = 1 then hd (snd kv) else PyList (snd kv)))) =
           (\<lambda>kv. (fst kv, (case snd kv of [v] \<Rightarrow> v | _ \<Rightarrow> PyList (snd kv))))"
    by (rule ext) (simp only: collapse_eq)
  show ?thesis
  proof (cases "md = []")
    case True
    then show ?thesis by (simp add: normalize_values_def)
  next
    case False
    then have "normalize_values (MultiDict md) =
        map (\<lambda>kv. (fst kv, (if length (snd kv) = 1 then hd (snd kv) else PyList (snd kv))))
          (filter (\<lambda>kv. snd kv \<noteq> []) md)"
      by (simp add: normalize_values_def)
    then show ?thesis by (simp only: f)
  qed
qed

lemma collapse_iff:
  "vs \<noteq> [] \<Longrightarrow>
   (case vs of [v] \<Rightarrow> v | _ \<Rightarrow> PyList vs) = x \<longleftrightarrow>
     vs = [x] \<or> (2 \<le> length vs \<and> x = PyList vs)"
proof (cases vs)
  case Nil
  assume "vs \<noteq> []"
  with Nil show ?thesis by simp
next
  case (Cons v ws)
  show ?thesis
  proof (cases ws)
    case Nil
    with Cons show ?thesis by auto
  next
    case (Cons w us)
    with \<open>vs = v # ws\<close> show ?thesis by auto
  qed
qed

lemma normalize_multi_entry:
  "(k, x) \<in> set (normalize_values (MultiDict md)) \<longleftrightarrow>
     (\<exists>vs. (k, vs) \<in> set md \<and> (vs = [x] \<or> (2 \<le> length vs \<and> x = PyList vs)))"
proof
  assume "(k, x) \<in> set (normalize_values (MultiDict md))"
  then obtain kv where kv: "kv \<in> set md" "snd kv \<noteq> []"
    and eq: "(k, x) = (fst kv, (case snd kv of [v] \<Rightarrow> v | _ \<Rightarrow> PyList (snd kv)))"
    unfolding normalize_multi by auto
  from eq have k: "fst kv = k" and x: "(case snd kv of [v] \<Rightarrow> v | _ \<Rightarrow> PyList (snd kv)) = x"
    by simp_all
  from x kv(2) have "snd kv = [x] \<or> (2 \<le> length (snd kv) \<and> x = PyList (snd kv))"
    using collapse_iff [of "snd kv" x] by simp
  moreover from kv(1) k have "(k, snd kv) \<in> set md" by (cases kv) auto
  ultimately show "\<exists>vs. (k, vs) \<in> set md \<and> (vs = [x] \<or> (2 \<le> length vs \<and> x = PyList vs))"
    by blast
next
  assume "\<exists>vs. (k, vs) \<in> set md \<and> (vs = [x] \<or> (2 \<le> length vs \<and> x = PyList vs))"
  then obtain vs where vs: "(k, vs) \<in> set md" "vs = [x] \<or> (2 \<le> length vs \<and> x = PyList vs)"
    by blast
  from vs(2) have ne: "vs \<noteq> []" by auto
  with vs(2) have "(case vs of [v] \<Rightarrow> v | _ \<Rightarrow> PyList vs) = x"
    using collapse_iff [of vs x] by simp
  then have "(k, x) =
      (\<lambda>kv. (fst kv, (case snd kv of [v] \<Rightarrow> v | _ \<Rightarrow> PyList (snd kv)))) (k, vs)"
    by (auto split: list.splits)
  moreover from vs(1) ne have "(k, vs) \<in> set (filter (\<lambda>kv. snd kv \<noteq> []) md)"
    by simp
  ultimately show "(k, x) \<in> set (normalize_values (MultiDict md))"
    unfolding normalize_multi set_map by (rule image_eqI)
qed

lemma build_values_only:
  "normalize_values v = normalize_values v' \<Longrightarrow>
   build cb m a ep v meth fe au sch = build cb m a ep v' meth fe au sch"
  by (simp add: build_def)

text \<open>
  C5 (as the code has it): \<^verbatim>\<open>build\<close> normalises the values before it selects a rule.
  \<^verbatim>\<open>None\<close> gives the empty mapping. A plain mapping loses the entries whose value is
  \<^verbatim>\<open>None\<close>. A \<^verbatim>\<open>MultiDict\<close> loses its empty groups; a group of one element becomes that
  element and a longer group stays a list, in its order. \<^verbatim>\<open>build\<close> depends on its values
  through the normalised mapping only.
\<close>

theorem build_normalises_values:
  "normalize_values NoValues = [] \<and>
   normalize_values (PlainDict d) = filter (\<lambda>kv. snd kv \<noteq> PyNone) d \<and>
   normalize_values (MultiDict md) =
     map (\<lambda>kv. (fst kv, (case snd kv of [v] \<Rightarrow> v | _ \<Rightarrow> PyList (snd kv))))
       (filter (\<lambda>kv. snd kv \<noteq> []) md) \<and>
   ((k, x) \<in> set (normalize_values (MultiDict md)) \<longleftrightarrow>
      (\<exists>vs. (k, vs) \<in> set md \<and> (vs = [x] \<or> (2 \<le> length vs \<and> x = PyList vs)))) \<and>
   (normalize_values v = normalize_values v' \<longrightarrow>
      build cb m a ep v meth fe au sch = build cb m a ep v' meth fe au sch)"
proof -
  have none: "normalize_values NoValues = []"
    by (simp add: normalize_values_def)
  have only: "normalize_values v = normalize_values v' \<longrightarrow>
      build cb m a ep v meth fe au sch = build cb m a ep v' meth fe au sch"
    using build_values_only [of v v' cb m a ep meth fe au sch] by blast
  from none normalize_plain [of d] normalize_multi [of md] normalize_multi_entry [of k x md] only
  show ?thesis by blast
qed

text \<open>
  The theorem on a plain mapping with a \<^verbatim>\<open>None\<close> entry and on a \<^verbatim>\<open>MultiDict\<close> with an
  empty, a single and a double group: both normalise to mappings that \<^verbatim>\<open>build\<close> treats
  as the plain mappings without the dropped entries.
\<close>

theorem build_normalises_values_witness:
  "normalize_values (PlainDict [(''a'', PyNone), (''b'', PyStr ''1'')]) = [(''b'', PyStr ''1'')] \<and>
   normalize_values (MultiDict [(''p'', []), (''q'', [PyStr ''z'']), (''r'', [PyInt 1, PyInt 2])]) =
     [(''q'', PyStr ''z''), (''r'', PyList [PyInt 1, PyInt 2])] \<and>
   normalize_values (PlainDict [(''a'', PyNone), (''b'', PyStr ''1'')]) =
     normalize_values (PlainDict [(''b'', PyStr ''1'')]) \<and>
   build x_collab x_map example_adapter ''e'' (PlainDict [(''a'', PyNone), (''b'', PyStr ''1'')])
     None False True None =
   build x_collab x_map example_adapter ''e'' (PlainDict [(''b'', PyStr ''1'')]) None False True
     None"
proof -
  note inst = build_normalises_values [of "[(''a'', PyNone), (''b'', PyStr ''1'')]"
      "[(''p'', []), (''q'', [PyStr ''z'']), (''r'', [PyInt 1, PyInt 2])]" "''q''" "PyStr ''z''"
      "PlainDict [(''a'', PyNone), (''b'', PyStr ''1'')]" "PlainDict [(''b'', PyStr ''1'')]"
      x_collab x_map example_adapter "''e''" None False True None]
  from inst have plain: "normalize_values (PlainDict [(''a'', PyNone), (''b'', PyStr ''1'')]) =
      [(''b'', PyStr ''1'')]"
    by simp
  from inst have multi:
    "normalize_values (MultiDict [(''p'', []), (''q'', [PyStr ''z'']), (''r'', [PyInt 1, PyInt 2])]) =
       [(''q'', PyStr ''z''), (''r'', PyList [PyInt 1, PyInt 2])]"
    by simp
  have same: "normalize_values (PlainDict [(''a'', PyNone), (''b'', PyStr ''1'')]) =
      normalize_values (PlainDict [(''b'', PyStr ''1'')])"
    by (simp add: normalize_values_def)
  from inst same have builds:
    "build x_collab x_map example_adapter ''e''
       (PlainDict [(''a'', PyNone), (''b'', PyStr ''1'')]) None False True None =
     build x_collab x_map example_adapter ''e'' (PlainDict [(''b'', PyStr ''1'')]) None False True
       None"
    by blast
  show ?thesis
    by (intro conjI) (fact plain multi same builds)+
qed

text \<open>
  C5 as it is stated fails on a \<^verbatim>\<open>MultiDict\<close> whose only group is \<^verbatim>\<open>[None]\<close>: the entry is
  not dropped, the normalised mapping holds \<^verbatim>\<open>None\<close> for the key, and \<^verbatim>\<open>build\<close> works on
  it (here it reports it in its \<^verbatim>\<open>BuildError\<close>, for an endpoint without rules). The same
  entry in a plain mapping is dropped.
\<close>

theorem build_drops_null_counterexample:
  "normalize_values (MultiDict [(''a'', [PyNone])]) = [(''a'', PyNone)] \<and>
   normalize_values (PlainDict [(''a'', PyNone)]) = [] \<and>
   snd (build x_collab x_map example_adapter ''missing'' (MultiDict [(''a'', [PyNone])]) None
          False True None) = Inl (BuildError ''missing'' [(''a'', PyNone)] None)"
  by (simp add: normalize_values_def build_def update_def x_map_def Map_init_def add_def
      add_rule_def rule_x_def example_rule_def)

subsection \<open>The rule that build selects\<close>

lemma eligible_builds_Cons:
  "eligible_builds cb values method au (r # rs) =
     (if suitable_for cb r values method then
        (case rule_build cb r values au of
           None \<Rightarrow> eligible_builds cb values method au rs
         | Some bv \<Rightarrow> (fst bv, snd bv, rule_websocket r) # eligible_builds cb values method au rs)
      else eligible_builds cb values method au rs)"
  by (simp add: eligible_builds_def map_filter_simps split: option.splits)

lemma eligible_builds_Nil: "eligible_builds cb values method au [] = []"
  by (simp add: eligible_builds_def map_filter_simps)

lemma partial_build_loop_spec:
  "partial_build_loop cb m a values method au fm rs =
     (let el = eligible_builds cb values method au rs
      in if host_matching m then
           (case find (\<lambda>rv. fst rv = server_name a) el of
              Some rv \<Rightarrow> Some rv
            | None \<Rightarrow> (case fm of
                         Some x \<Rightarrow> Some x
                       | None \<Rightarrow> (case el of [] \<Rightarrow> None | rv # _ \<Rightarrow> Some rv)))
         else (case el of [] \<Rightarrow> fm | rv # _ \<Rightarrow> Some rv))"
proof (induction rs arbitrary: fm)
  case Nil
  show ?case by (cases fm) (simp_all add: eligible_builds_Nil)
next
  case (Cons r rs)
  show ?case
    by (cases fm) (auto simp add: eligible_builds_Cons Cons.IH Let_def split: option.splits list.splits)
qed

lemma partial_build_loop_select:
  "partial_build_loop cb m a values method au None rs = select_rule cb m a values method au rs"
  by (simp add: partial_build_loop_spec select_rule_def Let_def split: option.splits)


lemma build_error_only:
  "snd (build cb m a ep values meth fe au sch) = Inl e \<Longrightarrow>
   e = BuildError ep (normalize_values values) meth"
  by (simp add: build_def Let_def split: option.splits)

lemma build_error_iff:
  "partial_build cb (update cb m) a ep (normalize_values values) meth au = None \<longleftrightarrow>
   snd (build cb m a ep values meth fe au sch) =
     Inl (BuildError ep (normalize_values values) meth)"
  by (simp add: build_def Let_def split: option.splits)

text \<open>
  C4: with a method, \<^verbatim>\<open>_partial_build\<close> returns the selection among the endpoint's rules
  in the order of the list: the first rule that is suitable for the values and the
  method and whose substitution succeeds; under host matching the first such rule that
  builds to the adapter's server name, and the first such rule at all when there is
  none. Without a method it returns the selection for the adapter's default method, and
  the selection for no method only when that one finds nothing. \<^verbatim>\<open>build\<close> fails exactly
  when nothing is selected, and then with a \<^verbatim>\<open>BuildError\<close> that carries the endpoint, the
  normalised values and the method; it has no other failure.
\<close>

theorem partial_build_selects:
  "partial_build cb m a ep vs (Some mth) au =
     select_rule cb m a vs (Some mth) au
       (case rules_by_endpoint m ep of None \<Rightarrow> [] | Some rs \<Rightarrow> rs) \<and>
   partial_build cb m a ep vs None au =
     (case select_rule cb m a vs (Some (default_method a)) au
             (case rules_by_endpoint m ep of None \<Rightarrow> [] | Some rs \<Rightarrow> rs) of
        Some rv \<Rightarrow> Some rv
      | None \<Rightarrow>
          select_rule cb m a vs None au
            (case rules_by_endpoint m ep of None \<Rightarrow> [] | Some rs \<Rightarrow> rs)) \<and>
   (partial_build cb (update cb m) a ep (normalize_values bvalues) meth au = None \<longleftrightarrow>
      snd (build cb m a ep bvalues meth fe au sch) =
        Inl (BuildError ep (normalize_values bvalues) meth)) \<and>
   (\<forall>e. snd (build cb m a ep bvalues meth fe au sch) = Inl e \<longrightarrow>
      e = BuildError ep (normalize_values bvalues) meth)"
proof -
  have some: "partial_build cb m a ep vs (Some mth) au =
     select_rule cb m a vs (Some mth) au
       (case rules_by_endpoint m ep of None \<Rightarrow> [] | Some rs \<Rightarrow> rs)" for mth
    by (simp add: partial_build_loop_select)
  have none: "partial_build cb m a ep vs None au =
     (case select_rule cb m a vs (Some (default_method a)) au
             (case rules_by_endpoint m ep of None \<Rightarrow> [] | Some rs \<Rightarrow> rs) of
        Some rv \<Rightarrow> Some rv
      | None \<Rightarrow>
          select_rule cb m a vs None au
            (case rules_by_endpoint m ep of None \<Rightarrow> [] | Some rs \<Rightarrow> rs))"
    by (simp add: partial_build_loop_select cong: option.case_cong)
  from some [of mth] none build_error_iff [of cb m a ep bvalues meth au fe sch]
    build_error_only [of cb m a ep bvalues meth fe au sch]
  show ?thesis by blast
qed

text \<open>
  The theorem under host matching: for the endpoint \<^verbatim>\<open>e\<close> the second rule, bound to the
  adapter's own server name, wins over the first; for the endpoint \<^verbatim>\<open>p\<close> and no method
  the default method \<^verbatim>\<open>GET\<close> selects nothing and the second attempt selects the rule for
  \<^verbatim>\<open>POST\<close>, bound to another host; an endpoint without rules gives the \<^verbatim>\<open>BuildError\<close>.
\<close>

theorem partial_build_selects_witness:
  "partial_build host_collab (update host_collab host_map) host_adapter ''e'' [] (Some ''GET'')
     True = Some (''example.com'', ''/b'', False) \<and>
   partial_build host_collab (update host_collab host_map) host_adapter ''p'' [] None True =
     Some (''other.com'', ''/p'', False) \<and>
   partial_build host_collab (update host_collab host_map) host_adapter ''zzz''
     (normalize_values NoValues) None True = None \<and>
   snd (build host_collab host_map host_adapter ''zzz'' NoValues None False True None) =
     Inl (BuildError ''zzz'' [] None)"
proof -
  note ev = host_collab_def example_collab_def host_map_def Map_init_def add_def add_rule_def
    rule_a_def rule_b_def rule_post_only_def example_rule_def host_adapter_def MapAdapter_def
    update_def select_rule_def eligible_builds_def endswith_slash_def
  have e: "select_rule host_collab (update host_collab host_map) host_adapter [] (Some ''GET'')
      True (case rules_by_endpoint (update host_collab host_map) ''e'' of
              None \<Rightarrow> [] | Some rs \<Rightarrow> rs) = Some (''example.com'', ''/b'', False)"
    by (simp add: ev)
  have p_get: "select_rule host_collab (update host_collab host_map) host_adapter []
      (Some (default_method host_adapter)) True
      (case rules_by_endpoint (update host_collab host_map) ''p'' of
         None \<Rightarrow> [] | Some rs \<Rightarrow> rs) = None"
    by (simp add: ev)
  have p_none: "select_rule host_collab (update host_collab host_map) host_adapter [] None True
      (case rules_by_endpoint (update host_collab host_map) ''p'' of
         None \<Rightarrow> [] | Some rs \<Rightarrow> rs) = Some (''other.com'', ''/p'', False)"
    by (simp add: ev)
  have z: "partial_build host_collab (update host_collab host_map) host_adapter ''zzz''
      (normalize_values NoValues) None True = None"
    by (simp add: ev normalize_values_def)
  have nv: "normalize_values NoValues = []"
    by (simp add: normalize_values_def)
  from partial_build_selects [where cb = host_collab and m = "update host_collab host_map"
      and a = host_adapter and ep = "''e''" and vs = "[]" and mth = "''GET''" and au = True]
  have "partial_build host_collab (update host_collab host_map) host_adapter ''e'' []
      (Some ''GET'') True =
    select_rule host_collab (update host_collab host_map) host_adapter [] (Some ''GET'') True
      (case rules_by_endpoint (update host_collab host_map) ''e'' of
         None \<Rightarrow> [] | Some rs \<Rightarrow> rs)"
    by blast
  then have c1: "partial_build host_collab (update host_collab host_map) host_adapter ''e'' []
      (Some ''GET'') True = Some (''example.com'', ''/b'', False)"
    by (simp only: e)
  from partial_build_selects [where cb = host_collab and m = "update host_collab host_map"
      and a = host_adapter and ep = "''p''" and vs = "[]" and au = True]
  have "partial_build host_collab (update host_collab host_map) host_adapter ''p'' [] None True =
    (case select_rule host_collab (update host_collab host_map) host_adapter []
            (Some (default_method host_adapter)) True
            (case rules_by_endpoint (update host_collab host_map) ''p'' of
               None \<Rightarrow> [] | Some rs \<Rightarrow> rs) of
       Some rv \<Rightarrow> Some rv
     | None \<Rightarrow>
         select_rule host_collab (update host_collab host_map) host_adapter [] None True
           (case rules_by_endpoint (update host_collab host_map) ''p'' of
              None \<Rightarrow> [] | Some rs \<Rightarrow> rs))"
    by blast
  then have c2: "partial_build host_collab (update host_collab host_map) host_adapter ''p'' []
      None True = Some (''other.com'', ''/p'', False)"
    by (simp only: p_get p_none option.simps)
  from z partial_build_selects [where cb = host_collab and m = host_map and a = host_adapter
      and ep = "''zzz''" and bvalues = NoValues and meth = None and au = True and fe = False
      and sch = None]
  have "snd (build host_collab host_map host_adapter ''zzz'' NoValues None False True None) =
      Inl (BuildError ''zzz'' (normalize_values NoValues) None)"
    by blast
  then have c3: "snd (build host_collab host_map host_adapter ''zzz'' NoValues None False True
      None) = Inl (BuildError ''zzz'' [] None)"
    by (simp only: nv)
  show ?thesis
    by (intro conjI) (fact c1 c2 z c3)+
qed

subsection \<open>The URL that build assembles\<close>

lemma host_matching_update: "host_matching (update cb m) = host_matching m"
  by (simp add: update_def)

lemma build_selected:
  "partial_build cb (update cb m) a ep (normalize_values bvalues) method au = Some rv \<Longrightarrow>
   snd (build cb m a ep bvalues method fe au sch) = Inr (build_url (update cb m) a rv fe sch)"
  by (simp add: build_def Let_def)

lemma get_host_Some:
  "get_host m a (Some dp) =
     (if host_matching m then dp
      else if dp \<noteq> [] then dp @ ''.'' @ server_name a else server_name a)"
  by (simp add: get_host_def)

text \<open>
  C8: when the selected rule is a websocket rule, \<^verbatim>\<open>build\<close> returns an absolute URL,
  whatever \<^verbatim>\<open>force_external\<close> is, with the scheme \<^verbatim>\<open>wss\<close> when the requested scheme (the
  argument, or the adapter's scheme without it) is \<^verbatim>\<open>https\<close> or \<^verbatim>\<open>wss\<close>, and \<^verbatim>\<open>ws\<close>
  otherwise. When the selected rule is not a websocket rule, the requested scheme is not
  empty and the result is external (forced, or on another domain part), its scheme is
  \<^verbatim>\<open>https\<close> when the requested scheme is secure and \<^verbatim>\<open>http\<close> otherwise.
\<close>

theorem build_scheme:
  assumes "partial_build cb (update cb m) a ep (normalize_values bvalues) method au =
             Some (dp, path, ws_rule)"
  shows "(ws_rule \<longrightarrow>
            snd (build cb m a ep bvalues method fe au sch) =
              Inr ((if (case sch of None \<Rightarrow> url_scheme a | Some s \<Rightarrow> s) = ''https'' \<or>
                       (case sch of None \<Rightarrow> url_scheme a | Some s \<Rightarrow> s) = ''wss''
                    then ''wss'' else ''ws'') @ ''://'' @
                   get_host (update cb m) a (Some dp) @ butlast (script_name a) @ ''/'' @
                   lstrip path)) \<and>
         (\<not> ws_rule \<and> (case sch of None \<Rightarrow> url_scheme a | Some s \<Rightarrow> s) \<noteq> [] \<and>
          (fe \<or> \<not> (if host_matching m then dp = server_name a else Some dp = subdomain a)) \<longrightarrow>
            snd (build cb m a ep bvalues method fe au sch) =
              Inr ((if (case sch of None \<Rightarrow> url_scheme a | Some s \<Rightarrow> s) = ''https'' \<or>
                       (case sch of None \<Rightarrow> url_scheme a | Some s \<Rightarrow> s) = ''wss''
                    then ''https'' else ''http'') @ ''://'' @
                   get_host (update cb m) a (Some dp) @ butlast (script_name a) @ ''/'' @
                   lstrip path))"
  using build_selected [OF assms, of fe sch]
  by (simp add: build_url_def Let_def get_host_Some host_matching_update)

text \<open>
  C9 (as the code has it): \<^verbatim>\<open>build\<close> returns the relative URL, the script name without
  trailing slashes, a slash and the path without leading slashes, exactly when the
  argument \<^verbatim>\<open>force_external\<close> is false, the selected rule is not a websocket rule, and the
  domain part of the selected rule is the adapter's own: the server name under host
  matching, the bound subdomain otherwise. In every other case, so also for a websocket
  rule of the adapter's own domain built without \<^verbatim>\<open>force_external\<close>, it returns the
  scheme, \<^verbatim>\<open>://\<close>, the host, the script name without its last character, a slash and the
  path; with an empty effective scheme the result starts with \<^verbatim>\<open>//\<close>.
\<close>

theorem build_relative_or_absolute:
  assumes "partial_build cb (update cb m) a ep (normalize_values bvalues) method au =
             Some (dp, path, ws_rule)"
  shows "snd (build cb m a ep bvalues method fe au sch) =
     Inr (let host = (if host_matching m then dp
                      else if dp \<noteq> [] then dp @ ''.'' @ server_name a else server_name a);
              scheme0 = (case sch of None \<Rightarrow> url_scheme a | Some s \<Rightarrow> s);
              secure = (scheme0 = ''https'' \<or> scheme0 = ''wss'');
              scheme = (if ws_rule then (if secure then ''wss'' else ''ws'')
                        else if scheme0 \<noteq> [] then (if secure then ''https'' else ''http'')
                        else [])
          in if \<not> (fe \<or> ws_rule) \<and>
                (if host_matching m then dp = server_name a else Some dp = subdomain a)
             then rstrip (script_name a) @ ''/'' @ lstrip path
             else (if scheme = [] then ''//'' else scheme @ ''://'') @ host @
                  butlast (script_name a) @ ''/'' @ lstrip path)"
  using build_selected [OF assms, of fe sch]
  by (simp add: build_url_def Let_def get_host_Some host_matching_update)

text \<open>
  The theorem on the adapter bound with \<^verbatim>\<open>https\<close>: the websocket rule builds to a
  \<^verbatim>\<open>wss\<close> URL without \<^verbatim>\<open>force_external\<close>, and the rule on the other subdomain to an
  \<^verbatim>\<open>https\<close> URL.
\<close>

theorem build_scheme_witness:
  "partial_build chat_collab (update chat_collab chat_map) secure_adapter ''chat''
     (normalize_values NoValues) None True = Some ([], ''/chat'', True) \<and>
   snd (build chat_collab chat_map secure_adapter ''chat'' NoValues None False True None) =
     Inr ''wss://example.com/app/chat'' \<and>
   partial_build chat_collab (update chat_collab chat_map) secure_adapter ''page''
     (normalize_values NoValues) None True = Some (''docs'', ''/page'', False) \<and>
   snd (build chat_collab chat_map secure_adapter ''page'' NoValues None False True None) =
     Inr ''https://docs.example.com/app/page''"
proof -
  note ev = chat_collab_def example_collab_def chat_map_def Map_init_def add_def add_rule_def
    rule_chat_def rule_page_def rule_home_def example_rule_def secure_adapter_def MapAdapter_def
    update_def endswith_slash_def normalize_values_def
  have chat: "partial_build chat_collab (update chat_collab chat_map) secure_adapter ''chat''
      (normalize_values NoValues) None True = Some ([], ''/chat'', True)"
    by (simp add: ev)
  have page: "partial_build chat_collab (update chat_collab chat_map) secure_adapter ''page''
      (normalize_values NoValues) None True = Some (''docs'', ''/page'', False)"
    by (simp add: ev)
  have host1: "get_host (update chat_collab chat_map) secure_adapter (Some []) = ''example.com''"
    by (simp add: get_host_def ev)
  have host2: "get_host (update chat_collab chat_map) secure_adapter (Some ''docs'') =
      ''docs.example.com''"
    by (simp add: get_host_def ev)
  have adapter: "url_scheme secure_adapter = ''https''" "script_name secure_adapter = ''/app/''"
    "subdomain secure_adapter = Some []" "\<not> host_matching chat_map"
    by (simp_all add: ev)
  from build_scheme [OF chat, of False None] host1 adapter
  have b1: "snd (build chat_collab chat_map secure_adapter ''chat'' NoValues None False True
      None) = Inr ''wss://example.com/app/chat''"
    by (simp add: lstrip_def)
  from build_scheme [OF page, of False None] host2 adapter
  have b2: "snd (build chat_collab chat_map secure_adapter ''page'' NoValues None False True
      None) = Inr ''https://docs.example.com/app/page''"
    by (simp add: lstrip_def)
  show ?thesis
    by (intro conjI) (fact chat page b1 b2)+
qed

text \<open>
  The theorem on the rule \<^verbatim>\<open>/home\<close> of the adapter's own subdomain: relative without
  \<^verbatim>\<open>force_external\<close>, absolute with it, and protocol-relative when the empty scheme is
  requested.
\<close>

theorem build_relative_or_absolute_witness:
  "partial_build chat_collab (update chat_collab chat_map) secure_adapter ''home''
     (normalize_values NoValues) None True = Some ([], ''/home'', False) \<and>
   snd (build chat_collab chat_map secure_adapter ''home'' NoValues None False True None) =
     Inr ''/app/home'' \<and>
   snd (build chat_collab chat_map secure_adapter ''home'' NoValues None True True None) =
     Inr ''https://example.com/app/home'' \<and>
   snd (build chat_collab chat_map secure_adapter ''home'' NoValues None True True (Some [])) =
     Inr ''//example.com/app/home''"
proof -
  note ev = chat_collab_def example_collab_def chat_map_def Map_init_def add_def add_rule_def
    rule_chat_def rule_page_def rule_home_def example_rule_def secure_adapter_def MapAdapter_def
    update_def endswith_slash_def normalize_values_def
  have home: "partial_build chat_collab (update chat_collab chat_map) secure_adapter ''home''
      (normalize_values NoValues) None True = Some ([], ''/home'', False)"
    by (simp add: ev)
  have adapter: "url_scheme secure_adapter = ''https''" "script_name secure_adapter = ''/app/''"
    "subdomain secure_adapter = Some []" "\<not> host_matching chat_map"
    "server_name secure_adapter = ''example.com''"
    by (simp_all add: ev)
  from build_relative_or_absolute [OF home, of False None] adapter
  have b1: "snd (build chat_collab chat_map secure_adapter ''home'' NoValues None False True
      None) = Inr ''/app/home''"
    by (simp add: lstrip_def rstrip_def)
  from build_relative_or_absolute [OF home, of True None] adapter
  have b2: "snd (build chat_collab chat_map secure_adapter ''home'' NoValues None True True
      None) = Inr ''https://example.com/app/home''"
    by (simp add: lstrip_def rstrip_def)
  from build_relative_or_absolute [OF home, of True "Some []"] adapter
  have b3: "snd (build chat_collab chat_map secure_adapter ''home'' NoValues None True True
      (Some [])) = Inr ''//example.com/app/home''"
    by (simp add: lstrip_def rstrip_def)
  show ?thesis
    by (intro conjI) (fact home b1 b2 b3)+
qed

text \<open>
  C9 as the documentation words it, with \<^verbatim>\<open>force_external\<close> being the argument of the call,
  fails on a websocket rule: the rule \<^verbatim>\<open>/chat\<close> lies on the adapter's own subdomain and
  \<^verbatim>\<open>build\<close> is called without \<^verbatim>\<open>force_external\<close>, yet the result is the absolute
  \<^verbatim>\<open>wss\<close> URL and not the relative one.
\<close>

theorem build_relative_websocket_counterexample:
  "partial_build chat_collab (update chat_collab chat_map) secure_adapter ''chat''
     (normalize_values NoValues) None True = Some ([], ''/chat'', True) \<and>
   \<not> host_matching chat_map \<and> subdomain secure_adapter = Some [] \<and>
   snd (build chat_collab chat_map secure_adapter ''chat'' NoValues None False True None) =
     Inr ''wss://example.com/app/chat'' \<and>
   snd (build chat_collab chat_map secure_adapter ''chat'' NoValues None False True None) \<noteq>
     Inr (rstrip (script_name secure_adapter) @ ''/'' @ lstrip ''/chat'')"
  by (simp add: chat_collab_def example_collab_def chat_map_def Map_init_def add_def add_rule_def
      rule_chat_def rule_page_def rule_home_def example_rule_def secure_adapter_def
      MapAdapter_def update_def endswith_slash_def normalize_values_def build_def build_url_def
      get_host_def lstrip_def rstrip_def)

subsection \<open>Redirection to the rule with defaults\<close>

lemma default_redirect_loop_find:
  "default_redirect_loop cb sl m a rl method values qargs rs =
     (case first_default_rule cb rl method values rs of
        None \<Rightarrow> Inr None
      | Some r \<Rightarrow> default_redirect_via cb sl m a r values qargs)"
  by (induction rs) (simp_all add: first_default_rule_def rules_before_def)

lemma rules_by_endpoint_update:
  "remap m \<Longrightarrow>
   rules_by_endpoint (update cb m) e =
     map_option (sort_key (build_compare_key cb)) (rules_by_endpoint m e)"
  by (simp add: update_def)

lemma match_default_redirect:
  assumes "matcher_match cb (matcher_rules (update cb m)) (match_domain (update cb m) a)
             (path_part (case pinfo of None \<Rightarrow> path_info a | Some p \<Rightarrow> p))
             (match_method a meth) (case ws of None \<Rightarrow> websocket a | Some w \<Rightarrow> w) =
           Matched rl rv"
    and "redirect_defaults m"
    and "get_default_redirect cb sl (update cb m) a rl (match_method a meth) rv
           (match_query_args a qa) = Inr (Some url)"
  shows "snd (match cb sl m a pinfo meth rr qa ws) = Inl (RequestRedirect url)"
  using assms by (simp add: match_def Let_def redirect_defaults_update)

lemma match_default_error:
  assumes "matcher_match cb (matcher_rules (update cb m)) (match_domain (update cb m) a)
             (path_part (case pinfo of None \<Rightarrow> path_info a | Some p \<Rightarrow> p))
             (match_method a meth) (case ws of None \<Rightarrow> websocket a | Some w \<Rightarrow> w) =
           Matched rl rv"
    and "redirect_defaults m"
    and "get_default_redirect cb sl (update cb m) a rl (match_method a meth) rv
           (match_query_args a qa) = Inl e"
  shows "snd (match cb sl m a pinfo meth rr qa ws) = Inl e"
  using assms by (simp add: match_def Let_def redirect_defaults_update)

lemma match_success:
  assumes "matcher_match cb (matcher_rules (update cb m)) (match_domain (update cb m) a)
             (path_part (case pinfo of None \<Rightarrow> path_info a | Some p \<Rightarrow> p))
             (match_method a meth) (case ws of None \<Rightarrow> websocket a | Some w \<Rightarrow> w) =
           Matched rl rv"
    and "redirect_defaults m \<Longrightarrow>
         get_default_redirect cb sl (update cb m) a rl (match_method a meth) rv
           (match_query_args a qa) = Inr None"
    and "redirect_to rl = None"
  shows "match cb sl m a pinfo meth rr qa ws =
           (update cb m, Inr (if rr then TRule rl else TEndpoint (endpoint rl), rv))"
  using assms by (cases "redirect_defaults m") (simp_all add: match_def Let_def redirect_defaults_update)


text \<open>
  C3 (as the code has it): when \<^verbatim>\<open>redirect_defaults\<close> is set and the matcher returns a
  rule and values, \<^verbatim>\<open>get_default_redirect\<close> scans the list of the rule's endpoint as
  \<^verbatim>\<open>Map.update\<close> left it, which on a remapped map is the list sorted by
  \<^verbatim>\<open>build_compare_key\<close> (a stable sort, so the order of registration decides among equal
  keys only). It looks at the rules that stand before the matched rule there, in order,
  and takes the first that provides defaults for the matched rule and is suitable for
  the values and the method: when that rule builds, with the values updated by its
  defaults, \<^verbatim>\<open>match\<close> fails with a redirect to the URL of that build. When there is no such
  rule there is no default redirect: a rule without \<^verbatim>\<open>redirect_to\<close> is returned.
\<close>

theorem default_redirect_scans_sorted_list:
  assumes matched:
      "matcher_match cb (matcher_rules (update cb m)) (match_domain (update cb m) a)
         (path_part (case pinfo of None \<Rightarrow> path_info a | Some p \<Rightarrow> p))
         (match_method a meth) (case ws of None \<Rightarrow> websocket a | Some w \<Rightarrow> w) =
       Matched rl rv"
    and rd: "redirect_defaults m"
    and rs: "rules_by_endpoint (update cb m) (endpoint rl) = Some rs"
  shows
    "(remap m \<longrightarrow>
        (\<exists>rs0. rules_by_endpoint m (endpoint rl) = Some rs0 \<and>
               rs = sort_key (build_compare_key cb) rs0)) \<and>
     get_default_redirect cb sl (update cb m) a rl (match_method a meth) rv
         (match_query_args a qa) =
       (case first_default_rule cb rl (match_method a meth) rv rs of
          None \<Rightarrow> Inr None
        | Some r \<Rightarrow> default_redirect_via cb sl (update cb m) a r rv (match_query_args a qa)) \<and>
     (\<forall>r d dp path.
        first_default_rule cb rl (match_method a meth) rv rs = Some r \<and> defaults r = Some d \<and>
        rule_build cb r (dict_update rv d) True = Some (dp, path) \<longrightarrow>
          snd (match cb sl m a pinfo meth rr qa ws) =
            Inl (RequestRedirect
                   (make_redirect_url sl (update cb m) a path (Some (match_query_args a qa))
                      (Some dp)))) \<and>
     (first_default_rule cb rl (match_method a meth) rv rs = None \<and> redirect_to rl = None \<longrightarrow>
        snd (match cb sl m a pinfo meth rr qa ws) =
          Inr (if rr then TRule rl else TEndpoint (endpoint rl), rv))"
proof -
  have sorted: "\<exists>rs0. rules_by_endpoint m (endpoint rl) = Some rs0 \<and>
      rs = sort_key (build_compare_key cb) rs0" if "remap m"
    using rs rules_by_endpoint_update [OF that, of cb "endpoint rl"] by auto
  have gdr: "get_default_redirect cb sl (update cb m) a rl (match_method a meth) rv
         (match_query_args a qa) =
       (case first_default_rule cb rl (match_method a meth) rv rs of
          None \<Rightarrow> Inr None
        | Some r \<Rightarrow> default_redirect_via cb sl (update cb m) a r rv (match_query_args a qa))"
    using rd rs
    by (simp add: get_default_redirect_def redirect_defaults_update default_redirect_loop_find)
  have redirect: "snd (match cb sl m a pinfo meth rr qa ws) =
      Inl (RequestRedirect
             (make_redirect_url sl (update cb m) a path (Some (match_query_args a qa)) (Some dp)))"
    if "first_default_rule cb rl (match_method a meth) rv rs = Some r" "defaults r = Some d"
      "rule_build cb r (dict_update rv d) True = Some (dp, path)" for r d dp path
  proof -
    from that gdr have "get_default_redirect cb sl (update cb m) a rl (match_method a meth) rv
        (match_query_args a qa) =
      Inr (Some (make_redirect_url sl (update cb m) a path (Some (match_query_args a qa))
                   (Some dp)))"
      by (simp add: default_redirect_via_def)
    with matched rd show ?thesis by (rule match_default_redirect)
  qed
  have none: "snd (match cb sl m a pinfo meth rr qa ws) =
      Inr (if rr then TRule rl else TEndpoint (endpoint rl), rv)"
    if "first_default_rule cb rl (match_method a meth) rv rs = None" "redirect_to rl = None"
  proof -
    from that(1) gdr have "get_default_redirect cb sl (update cb m) a rl (match_method a meth) rv
        (match_query_args a qa) = Inr None"
      by simp
    with matched that(2) have "match cb sl m a pinfo meth rr qa ws =
        (update cb m, Inr (if rr then TRule rl else TEndpoint (endpoint rl), rv))"
      by (intro match_success) simp_all
    then show ?thesis by simp
  qed
  from sorted gdr redirect none show ?thesis by blast
qed


text \<open>
  The theorem on the two rules of \<^verbatim>\<open>all\<close>: the sort puts the rule with defaults first;
  \<^verbatim>\<open>match("/all/page/1")\<close> finds it before the matched rule and redirects to \<^verbatim>\<open>/all/\<close>;
  \<^verbatim>\<open>match("/all/page/2")\<close> contradicts its defaults and returns the endpoint.
\<close>

theorem default_redirect_scans_sorted_list_witness:
  "redirect_defaults pages_map \<and> remap pages_map \<and>
   rules_by_endpoint pages_map ''all'' = Some [rule_all_page, rule_all] \<and>
   rules_by_endpoint (update pages_collab pages_map) ''all'' = Some [rule_all, rule_all_page] \<and>
   first_default_rule pages_collab rule_all_page (match_method example_adapter None)
     [(''page'', PyInt 1)] [rule_all, rule_all_page] = Some rule_all \<and>
   snd (match pages_collab example_stdlib pages_map example_adapter (Some ''/all/page/1'') None
          False None None) = Inl (RequestRedirect ''http://example.com/all/'') \<and>
   first_default_rule pages_collab rule_all_page (match_method example_adapter None)
     [(''page'', PyInt 2)] [rule_all, rule_all_page] = None \<and>
   snd (match pages_collab example_stdlib pages_map example_adapter (Some ''/all/page/2'') None
          False None None) = Inr (TEndpoint ''all'', [(''page'', PyInt 2)])"
proof -
  note ev = pages_collab_def example_collab_def pages_map_def Map_init_def add_def add_rule_def
    rule_all_def rule_all_page_def example_rule_def example_adapter_def MapAdapter_def
    update_def endswith_slash_def match_domain_def match_method_def upper_def upper_char_def
    path_part_def lstrip_def first_default_rule_def rules_before_def
  have rd: "redirect_defaults pages_map" and rm: "remap pages_map"
    by (simp_all add: ev)
  have reg: "rules_by_endpoint pages_map ''all'' = Some [rule_all_page, rule_all]"
    by (simp add: ev)
  have rs: "rules_by_endpoint (update pages_collab pages_map) (endpoint rule_all_page) =
      Some [rule_all, rule_all_page]"
    by (simp add: ev)
  have ep: "endpoint rule_all_page = ''all''"
    by (simp add: ev)
  have m1: "matcher_match pages_collab (matcher_rules (update pages_collab pages_map))
      (match_domain (update pages_collab pages_map) example_adapter)
      (path_part (case Some ''/all/page/1'' of None \<Rightarrow> path_info example_adapter | Some p \<Rightarrow> p))
      (match_method example_adapter None)
      (case None of None \<Rightarrow> websocket example_adapter | Some w \<Rightarrow> w) =
    Matched rule_all_page [(''page'', PyInt 1)]"
    by (simp add: pages_collab_def example_collab_def path_part_def lstrip_def)
  have m2: "matcher_match pages_collab (matcher_rules (update pages_collab pages_map))
      (match_domain (update pages_collab pages_map) example_adapter)
      (path_part (case Some ''/all/page/2'' of None \<Rightarrow> path_info example_adapter | Some p \<Rightarrow> p))
      (match_method example_adapter None)
      (case None of None \<Rightarrow> websocket example_adapter | Some w \<Rightarrow> w) =
    Matched rule_all_page [(''page'', PyInt 2)]"
    by (simp add: pages_collab_def example_collab_def path_part_def lstrip_def)
  have f1: "first_default_rule pages_collab rule_all_page (match_method example_adapter None)
      [(''page'', PyInt 1)] [rule_all, rule_all_page] = Some rule_all"
    by (simp add: ev)
  have f2: "first_default_rule pages_collab rule_all_page (match_method example_adapter None)
      [(''page'', PyInt 2)] [rule_all, rule_all_page] = None"
    by (simp add: ev)
  have d: "defaults rule_all = Some [(''page'', PyInt 1)]"
    by (simp add: ev)
  have b: "rule_build pages_collab rule_all
      (dict_update [(''page'', PyInt 1)] [(''page'', PyInt 1)]) True = Some ([], ''/all/'')"
    by (simp add: ev)
  have nr: "redirect_to rule_all_page = None"
    by (simp add: ev)
  have url: "make_redirect_url example_stdlib (update pages_collab pages_map) example_adapter
      ''/all/'' (Some (match_query_args example_adapter None)) (Some []) =
    ''http://example.com/all/''"
    by (simp add: make_redirect_url_def match_query_args_def get_host_def example_stdlib_def
        urlunsplit_ascii_def strip_def rstrip_def ev)
  from default_redirect_scans_sorted_list [OF m1 rd rs, where sl = example_stdlib and rr = False
      and qa = None] f1 d b
  have "snd (match pages_collab example_stdlib pages_map example_adapter (Some ''/all/page/1'')
      None False None None) =
    Inl (RequestRedirect
           (make_redirect_url example_stdlib (update pages_collab pages_map) example_adapter
              ''/all/'' (Some (match_query_args example_adapter None)) (Some [])))"
    by blast
  then have r1: "snd (match pages_collab example_stdlib pages_map example_adapter
      (Some ''/all/page/1'') None False None None) = Inl (RequestRedirect ''http://example.com/all/'')"
    by (simp only: url)
  from default_redirect_scans_sorted_list [OF m2 rd rs, where sl = example_stdlib and rr = False
      and qa = None] f2 nr
  have "snd (match pages_collab example_stdlib pages_map example_adapter (Some ''/all/page/2'')
      None False None None) =
    Inr (if False then TRule rule_all_page else TEndpoint (endpoint rule_all_page),
         [(''page'', PyInt 2)])"
    by blast
  then have r2: "snd (match pages_collab example_stdlib pages_map example_adapter
      (Some ''/all/page/2'') None False None None) = Inr (TEndpoint ''all'', [(''page'', PyInt 2)])"
    by (simp add: ep)
  from rs ep have rs': "rules_by_endpoint (update pages_collab pages_map) ''all'' =
      Some [rule_all, rule_all_page]"
    by simp
  show ?thesis
    by (intro conjI) (fact rd rm reg rs' f1 r1 f2 r2)+
qed

text \<open>
  C3 as it is stated fails at \<^verbatim>\<open>match("/all/page/1")\<close>: the matched rule was registered
  first, so no rule was registered before it and, scanning those, no rule would
  redirect; yet \<^verbatim>\<open>match\<close> redirects to \<^verbatim>\<open>/all/\<close>, the build of the rule registered after it,
  which the sort has put in front.
\<close>

theorem default_redirect_registration_counterexample:
  "rules_by_endpoint pages_map ''all'' = Some [rule_all_page, rule_all] \<and>
   rules_before rule_all_page [rule_all_page, rule_all] = [] \<and>
   first_default_rule pages_collab rule_all_page ''GET'' [(''page'', PyInt 1)]
     [rule_all_page, rule_all] = None \<and>
   snd (match pages_collab example_stdlib pages_map example_adapter (Some ''/all/page/1'') None
          False None None) = Inl (RequestRedirect ''http://example.com/all/'')"
  by (simp add: pages_collab_def example_collab_def pages_map_def Map_init_def add_def
      add_rule_def rule_all_def rule_all_page_def example_rule_def example_adapter_def
      MapAdapter_def update_def endswith_slash_def match_domain_def match_method_def upper_def
      upper_char_def path_part_def lstrip_def first_default_rule_def rules_before_def match_def
      get_default_redirect_def default_redirect_via_def dict_update_def make_redirect_url_def
      match_query_args_def get_host_def example_stdlib_def urlunsplit_ascii_def strip_def
      rstrip_def)

subsection \<open>Alias redirects\<close>

lemma build_url_external:
  "\<exists>pre rest. build_url m a rv True sch = pre @ ''//'' @ rest \<and>
     pre \<in> {[], ''wss:'', ''ws:'', ''https:'', ''http:''}"
proof -
  define rest where "rest = get_host m a (Some (fst rv)) @ butlast (script_name a) @ ''/'' @
    lstrip (fst (snd rv))"
  define scheme0 where "scheme0 = (case sch of None \<Rightarrow> url_scheme a | Some s \<Rightarrow> s)"
  define scheme1 where "scheme1 =
    (if snd (snd rv) then (if scheme0 = ''https'' \<or> scheme0 = ''wss'' then ''wss'' else ''ws'')
     else if scheme0 \<noteq> [] then (if scheme0 = ''https'' \<or> scheme0 = ''wss'' then ''https'' else ''http'')
     else scheme0)"
  define pre where "pre = (if scheme1 \<noteq> [] then scheme1 @ '':'' else [])"
  have "build_url m a rv True sch = pre @ ''//'' @ rest"
    by (simp add: build_url_def Let_def rest_def pre_def scheme1_def scheme0_def)
  moreover have "pre \<in> {[], ''wss:'', ''ws:'', ''https:'', ''http:''}"
    by (simp add: pre_def scheme1_def)
  ultimately show ?thesis by blast
qed

lemma external_differs_from_domain_path:
  assumes "pre \<in> {[], ''wss:'', ''ws:'', ''https:'', ''http:''}" and "CHR ''/'' \<notin> set dp"
  shows "pre @ ''//'' @ rest \<noteq> dp @ ''|'' @ pp"
proof
  assume eq: "pre @ ''//'' @ rest = dp @ ''|'' @ pp"
  from assms(1) have pre: "\<forall>c \<in> set pre. c \<noteq> CHR ''/''" and bar: "CHR ''|'' \<notin> set pre"
    by auto
  from pre have l: "takeWhile (\<lambda>c. c \<noteq> CHR ''/'') (pre @ ''//'' @ rest) = pre"
    by (simp add: takeWhile_append2)
  from assms(2) have r: "takeWhile (\<lambda>c. c \<noteq> CHR ''/'') (dp @ ''|'' @ pp) =
      dp @ ''|'' @ takeWhile (\<lambda>c. c \<noteq> CHR ''/'') pp"
    by (subst takeWhile_append2) auto
  from eq l r have "pre = dp @ ''|'' @ takeWhile (\<lambda>c. c \<noteq> CHR ''/'') pp"
    by simp
  then have "CHR ''|'' \<in> set pre" by simp
  with bar show False by simp
qed

lemma alias_url_differs:
  assumes "CHR ''/'' \<notin> set dp"
  shows "build_url m a rv True sch @ suffix \<noteq> dp @ ''|'' @ pp"
proof -
  from build_url_external [of m a rv sch] obtain pre rest where
    u: "build_url m a rv True sch = pre @ ''//'' @ rest"
    and pre: "pre \<in> {[], ''wss:'', ''ws:'', ''https:'', ''http:''}"
    by blast
  from external_differs_from_domain_path [OF pre assms, of "rest @ suffix" pp] u
  show ?thesis by simp
qed

lemma make_alias_redirect_url_result:
  assumes "CHR ''/'' \<notin> set dp"
  shows "snd (make_alias_redirect_url cb sl m a (dp @ ''|'' @ pp) ep vs mth qargs) =
     (case snd (build cb m a ep (PlainDict vs) (Some mth) True False None) of
        Inl e \<Rightarrow> Inl e
      | Inr url \<Rightarrow> Inr (if query_truthy qargs then url @ ''?'' @ encode_query_args sl qargs
                        else url))"
proof (cases "partial_build cb (update cb m) a ep (normalize_values (PlainDict vs)) (Some mth) False")
  case None
  then show ?thesis
    by (simp add: make_alias_redirect_url_def build_def Let_def)
next
  case (Some rv)
  from alias_url_differs [OF assms, of "update cb m" a rv None "[]" pp]
  have d1: "build_url (update cb m) a rv True None \<noteq> dp @ ''|'' @ pp" by simp
  from alias_url_differs [OF assms, of "update cb m" a rv None
      "''?'' @ encode_query_args sl qargs" pp]
  have d2: "build_url (update cb m) a rv True None @ ''?'' @ encode_query_args sl qargs \<noteq>
      dp @ ''|'' @ pp" by simp
  from Some d1 d2 show ?thesis
    by (simp add: make_alias_redirect_url_def build_def Let_def)
qed

lemma build_error_is_build_error:
  "snd (build cb m a ep bvalues mth fe au sch) \<noteq> Inl AssertionError"
  by (simp add: build_def Let_def split: option.splits)

lemma match_alias:
  assumes "matcher_match cb (matcher_rules (update cb m)) (match_domain (update cb m) a)
             (path_part (case pinfo of None \<Rightarrow> path_info a | Some q \<Rightarrow> q))
             (match_method a meth) (case ws of None \<Rightarrow> websocket a | Some w \<Rightarrow> w) =
           RequestAliasRedirect ep mv"
  shows "snd (match cb sl m a pinfo meth rr qa ws) =
     (case snd (make_alias_redirect_url cb sl (update cb m) a
                  (match_domain (update cb m) a @ ''|'' @
                   path_part (case pinfo of None \<Rightarrow> path_info a | Some q \<Rightarrow> q))
                  ep mv (match_method a meth) (match_query_args a qa)) of
        Inl e \<Rightarrow> Inl e
      | Inr url \<Rightarrow> Inl (RequestRedirect url))"
  using assms by (simp add: match_def Let_def split: sum.splits)

text \<open>
  C7: when the matcher asks for an alias redirect, the assertion of
  \<^verbatim>\<open>make_alias_redirect_url\<close> holds: the URL that \<^verbatim>\<open>build\<close> returns with \<^verbatim>\<open>force_external\<close>,
  with or without the query string, differs from the domain part, \<^verbatim>\<open>|\<close> and the requested
  path, so \<^verbatim>\<open>match\<close> never fails with \<^verbatim>\<open>AssertionError\<close>: it fails with the \<^verbatim>\<open>BuildError\<close> of
  \<^verbatim>\<open>build\<close> or with the redirect to the URL built. A valid configuration is taken to bind
  the adapter to a host name: the domain part handed to the matcher, the bound subdomain
  or the server name, has no slash in it. Nothing is asked of the rules.
\<close>

theorem alias_assertion_holds:
  assumes "matcher_match cb (matcher_rules (update cb m)) (match_domain (update cb m) a)
             (path_part (case pinfo of None \<Rightarrow> path_info a | Some q \<Rightarrow> q))
             (match_method a meth) (case ws of None \<Rightarrow> websocket a | Some w \<Rightarrow> w) =
           RequestAliasRedirect ep mv"
    and "CHR ''/'' \<notin> set (match_domain (update cb m) a)"
  shows "snd (make_alias_redirect_url cb sl (update cb m) a
                (match_domain (update cb m) a @ ''|'' @
                 path_part (case pinfo of None \<Rightarrow> path_info a | Some q \<Rightarrow> q))
                ep mv (match_method a meth) (match_query_args a qa)) \<noteq> Inl AssertionError \<and>
         snd (match cb sl m a pinfo meth rr qa ws) \<noteq> Inl AssertionError \<and>
         snd (match cb sl m a pinfo meth rr qa ws) =
           (case snd (build cb (update cb m) a ep (PlainDict mv) (Some (match_method a meth)) True
                        False None) of
              Inl e \<Rightarrow> Inl e
            | Inr url \<Rightarrow>
                Inl (RequestRedirect
                       (if query_truthy (match_query_args a qa)
                        then url @ ''?'' @ encode_query_args sl (match_query_args a qa)
                        else url)))"
proof -
  let ?b = "snd (build cb (update cb m) a ep (PlainDict mv) (Some (match_method a meth)) True
    False None)"
  note redirect = make_alias_redirect_url_result [OF assms(2), of cb sl "update cb m" a
      "path_part (case pinfo of None \<Rightarrow> path_info a | Some q \<Rightarrow> q)" ep mv
      "match_method a meth" "match_query_args a qa"]
  have b: "?b \<noteq> Inl AssertionError"
    by (rule build_error_is_build_error)
  from redirect b have one: "snd (make_alias_redirect_url cb sl (update cb m) a
      (match_domain (update cb m) a @ ''|'' @
       path_part (case pinfo of None \<Rightarrow> path_info a | Some q \<Rightarrow> q))
      ep mv (match_method a meth) (match_query_args a qa)) \<noteq> Inl AssertionError"
    by (cases ?b) simp_all
  from match_alias [OF assms(1), of sl rr qa] redirect
  have three: "snd (match cb sl m a pinfo meth rr qa ws) =
      (case ?b of
         Inl e \<Rightarrow> Inl e
       | Inr url \<Rightarrow>
           Inl (RequestRedirect
                  (if query_truthy (match_query_args a qa)
                   then url @ ''?'' @ encode_query_args sl (match_query_args a qa)
                   else url)))"
    by (cases ?b) simp_all
  from three b have two: "snd (match cb sl m a pinfo meth rr qa ws) \<noteq> Inl AssertionError"
    by (cases ?b) simp_all
  from one two three show ?thesis by (intro conjI)
qed

text \<open>
  The theorem at \<^verbatim>\<open>match("/old")\<close> on the map with the rule \<^verbatim>\<open>/x\<close>, without and with
  query arguments: the redirect goes to the canonical URL.
\<close>

theorem alias_assertion_holds_witness:
  "matcher_match alias_collab (matcher_rules (update alias_collab x_map))
     (match_domain (update alias_collab x_map) example_adapter) (path_part ''/old'')
     (match_method example_adapter None) (websocket example_adapter) =
     RequestAliasRedirect ''e'' [] \<and>
   match_domain (update alias_collab x_map) example_adapter = [] \<and>
   CHR ''/'' \<notin> set (match_domain (update alias_collab x_map) example_adapter) \<and>
   snd (build alias_collab (update alias_collab x_map) example_adapter ''e'' (PlainDict [])
          (Some (match_method example_adapter None)) True False None) =
     Inr ''http://example.com/x'' \<and>
   snd (match alias_collab example_stdlib x_map example_adapter (Some ''/old'') None False None
          None) = Inl (RequestRedirect ''http://example.com/x'') \<and>
   snd (match alias_collab example_stdlib x_map example_adapter (Some ''/old'') None False
          (Some (QStr ''a=1'')) None) = Inl (RequestRedirect ''http://example.com/x?a=1'')"
proof -
  note ev = update_def x_map_def Map_init_def add_def add_rule_def alias_collab_def
    example_collab_def example_adapter_def MapAdapter_def rule_x_def example_rule_def
    path_part_def lstrip_def match_domain_def match_method_def upper_def upper_char_def
    match_query_args_def endswith_slash_def
  have asked: "matcher_match alias_collab (matcher_rules (update alias_collab x_map))
     (match_domain (update alias_collab x_map) example_adapter) (path_part ''/old'')
     (match_method example_adapter None) (websocket example_adapter) =
     RequestAliasRedirect ''e'' []"
    by (simp add: ev)
  have dom: "match_domain (update alias_collab x_map) example_adapter = []"
    by (simp add: ev)
  then have slash: "CHR ''/'' \<notin> set (match_domain (update alias_collab x_map) example_adapter)"
    by simp
  have built: "snd (build alias_collab (update alias_collab x_map) example_adapter ''e''
      (PlainDict []) (Some (match_method example_adapter None)) True False None) =
      Inr ''http://example.com/x''"
    by (simp add: ev build_def build_url_def get_host_def normalize_values_def)
  have q0: "match_query_args example_adapter None = QMap []"
    by (simp add: ev)
  have q1: "match_query_args example_adapter (Some (QStr ''a=1'')) = QStr ''a=1''"
    by (simp add: ev)
  have enc: "encode_query_args example_stdlib (QStr ''a=1'') = ''a=1''"
    by simp
  note plain = alias_assertion_holds [where cb = alias_collab and m = x_map
      and a = example_adapter and pinfo = "Some ''/old''" and meth = None and ws = None
      and ep = "''e''" and mv = "[]" and sl = example_stdlib and rr = False and qa = None,
      unfolded option.case, OF asked slash]
  note query = alias_assertion_holds [where cb = alias_collab and m = x_map
      and a = example_adapter and pinfo = "Some ''/old''" and meth = None and ws = None
      and ep = "''e''" and mv = "[]" and sl = example_stdlib and rr = False
      and qa = "Some (QStr ''a=1'')", unfolded option.case, OF asked slash]
  from plain have "snd (match alias_collab example_stdlib x_map example_adapter (Some ''/old'')
      None False None None) =
      (case snd (build alias_collab (update alias_collab x_map) example_adapter ''e''
                   (PlainDict []) (Some (match_method example_adapter None)) True False None) of
         Inl e \<Rightarrow> Inl e
       | Inr url \<Rightarrow>
           Inl (RequestRedirect
                  (if query_truthy (match_query_args example_adapter None)
                   then url @ ''?'' @
                        encode_query_args example_stdlib (match_query_args example_adapter None)
                   else url)))"
    by blast
  then have r0: "snd (match alias_collab example_stdlib x_map example_adapter (Some ''/old'')
      None False None None) = Inl (RequestRedirect ''http://example.com/x'')"
    by (simp only: built q0 query_truthy.simps sum.case if_False simp_thms)
  from query have "snd (match alias_collab example_stdlib x_map example_adapter (Some ''/old'')
      None False (Some (QStr ''a=1'')) None) =
      (case snd (build alias_collab (update alias_collab x_map) example_adapter ''e''
                   (PlainDict []) (Some (match_method example_adapter None)) True False None) of
         Inl e \<Rightarrow> Inl e
       | Inr url \<Rightarrow>
           Inl (RequestRedirect
                  (if query_truthy (match_query_args example_adapter (Some (QStr ''a=1'')))
                   then url @ ''?'' @
                        encode_query_args example_stdlib
                          (match_query_args example_adapter (Some (QStr ''a=1'')))
                   else url)))"
    by blast
  then have r1: "snd (match alias_collab example_stdlib x_map example_adapter (Some ''/old'')
      None False (Some (QStr ''a=1'')) None) = Inl (RequestRedirect ''http://example.com/x?a=1'')"
    by (simp add: built q1 enc)
  show ?thesis
    by (intro conjI) (fact asked dom slash built r0 r1)+
qed

subsection \<open>Building what was matched\<close>










end
